theory Spec2Isabelle
  imports Complex_Main
begin

section \<open>Errors\<close>

text \<open>
  The Python exceptions that the modelled functions of \<^verbatim>\<open>run_exp.py\<close> can raise.
  \<open>Breakpoint\<close> stands for the \<^verbatim>\<open>breakpoint()\<close> call of the bare \<^verbatim>\<open>except\<close>
  around the in-place subtraction at the end of \<^verbatim>\<open>reinit_lora_modules\<close>.
\<close>

datatype error =
    ValueError string
  | UnboundLocalError string
  | KeyError string
  | IndexError
  | AttributeError string
  | RuntimeError
  | ZeroDivisionError
  | Breakpoint

section \<open>Temporary weights (the scoped mutation of \<^verbatim>\<open>temporary_weights\<close>)\<close>

text \<open>
  The data of a parameter is a tensor: its layout (shape and dtype, which an operation in
  place cannot change) and its content. Both types are left open, so that nothing below
  depends on how tensors compute. \<^verbatim>\<open>model.named_parameters()\<close> is the ordered sequence of
  (name, parameter) pairs.
\<close>

datatype ('l, 'c) tensor = Tensor (layout: 'l) (content: 'c)

type_synonym ('l, 'c) named_parameters = "(string \<times> ('l, 'c) tensor) list"

text \<open>The dictionary comprehension of lines 291-295: a later pair overwrites an earlier one.\<close>

definition original_params ::
  "('l, 'c) named_parameters \<Rightarrow> (string \<rightharpoonup> 'd) \<Rightarrow> (string \<rightharpoonup> ('l, 'c) tensor)" where
  "original_params model adapted_weights =
     map_of (rev (filter (\<lambda>(name, param). adapted_weights name \<noteq> None) model))"

text \<open>
  The loop of lines 298-300. The update \<^verbatim>\<open>param.data -= eta * delta\<close> is in place: the
  argument \<open>isub\<close> gives the new content of the tensor, or raises (shapes that do not
  broadcast) and leaves it untouched; the layout stays. An exception leaves the
  parameters already visited mutated.
\<close>

fun apply_adapted ::
  "(real \<Rightarrow> 'd \<Rightarrow> ('l, 'c) tensor \<Rightarrow> error + 'c) \<Rightarrow> (string \<rightharpoonup> 'd) \<Rightarrow> real \<Rightarrow>
     ('l, 'c) named_parameters \<Rightarrow> error option \<times> ('l, 'c) named_parameters" where
  "apply_adapted isub adapted_weights eta [] = (None, [])"
| "apply_adapted isub adapted_weights eta ((name, param) # rest) =
     (case adapted_weights name of
        None \<Rightarrow>
          (case apply_adapted isub adapted_weights eta rest of
             (e, rest') \<Rightarrow> (e, (name, param) # rest'))
      | Some delta \<Rightarrow>
          (case isub eta delta param of
             Inl e \<Rightarrow> (Some e, (name, param) # rest)
           | Inr c \<Rightarrow>
               (case apply_adapted isub adapted_weights eta rest of
                  (e, rest') \<Rightarrow> (e, (name, Tensor (layout param) c) # rest'))))"

text \<open>
  \<^verbatim>\<open>dst.copy_(src)\<close>, line 308, writes into the tensor that is there. When the two layouts
  agree the content of \<open>src\<close> is copied as it is. Otherwise the copy broadcasts and casts
  \<open>src\<close> to the layout of \<open>dst\<close>, or raises when the shapes do not broadcast: that is the
  argument \<open>convert\<close>.
\<close>

definition copy_into ::
  "(('l, 'c) tensor \<Rightarrow> ('l, 'c) tensor \<Rightarrow> error + 'c) \<Rightarrow> ('l, 'c) tensor \<Rightarrow> ('l, 'c) tensor \<Rightarrow>
     error + ('l, 'c) tensor" where
  "copy_into convert dst src =
     (if layout src = layout dst then Inr (Tensor (layout dst) (content src))
      else (case convert dst src of
              Inl e \<Rightarrow> Inl e
            | Inr c \<Rightarrow> Inr (Tensor (layout dst) c)))"

text \<open>
  The loop of the \<^verbatim>\<open>finally\<close> clause, lines 306-308. An exception of the copy leaves the
  loop: the parameters after it are not restored.
\<close>

fun restore_params ::
  "(('l, 'c) tensor \<Rightarrow> ('l, 'c) tensor \<Rightarrow> error + 'c) \<Rightarrow> (string \<rightharpoonup> ('l, 'c) tensor) \<Rightarrow>
     ('l, 'c) named_parameters \<Rightarrow> error option \<times> ('l, 'c) named_parameters" where
  "restore_params convert original [] = (None, [])"
| "restore_params convert original ((name, param) # rest) =
     (case original name of
        None \<Rightarrow>
          (case restore_params convert original rest of
             (e, rest') \<Rightarrow> (e, (name, param) # rest'))
      | Some saved \<Rightarrow>
          (case copy_into convert param saved of
             Inl e \<Rightarrow> (Some e, (name, param) # rest)
           | Inr param' \<Rightarrow>
               (case restore_params convert original rest of
                  (e, rest') \<Rightarrow> (e, (name, param') # rest'))))"

text \<open>
  How a \<^verbatim>\<open>with temporary_weights(...)\<close> statement ends: the generator raised before its
  \<^verbatim>\<open>yield\<close> (the block never ran and the \<^verbatim>\<open>finally\<close> clause is not reached), the
  \<^verbatim>\<open>finally\<close> clause raised (its exception replaces the one of the block, if any), the
  block raised, or the block returned a value.
\<close>

datatype 'r scope_exit =
  EnterRaised error | ExitRaised error | BlockRaised error | BlockReturned 'r

fun entered :: "'r scope_exit \<Rightarrow> bool" where
  "entered (EnterRaised e) = False"
| "entered (ExitRaised e) = True"
| "entered (BlockRaised e) = True"
| "entered (BlockReturned r) = True"

text \<open>
  The block of the \<^verbatim>\<open>with\<close> statement is any function of the parameters it is handed: it
  returns the parameters as it leaves them (it may have written into a tensor or put
  another tensor in its place), and an error or a value.
\<close>

definition temporary_weights ::
  "(real \<Rightarrow> 'd \<Rightarrow> ('l, 'c) tensor \<Rightarrow> error + 'c) \<Rightarrow>
     (('l, 'c) tensor \<Rightarrow> ('l, 'c) tensor \<Rightarrow> error + 'c) \<Rightarrow>
     ('l, 'c) named_parameters \<Rightarrow> (string \<rightharpoonup> 'd) \<Rightarrow> real \<Rightarrow>
     (('l, 'c) named_parameters \<Rightarrow> ('l, 'c) named_parameters \<times> (error + 'r)) \<Rightarrow>
     'r scope_exit \<times> ('l, 'c) named_parameters" where
  "temporary_weights isub convert model adapted_weights eta block =
     (let original = original_params model adapted_weights in
      case apply_adapted isub adapted_weights eta model of
        (Some e, model1) \<Rightarrow> (EnterRaised e, model1)
      | (None, model1) \<Rightarrow>
          (case block model1 of
             (model2, r) \<Rightarrow>
               (case restore_params convert original model2 of
                  (Some e, model3) \<Rightarrow> (ExitRaised e, model3)
                | (None, model3) \<Rightarrow>
                    (case r of
                       Inl e \<Rightarrow> (BlockRaised e, model3)
                     | Inr v \<Rightarrow> (BlockReturned v, model3)))))"

section \<open>Python floats, as far as comparisons need them\<close>

text \<open>
  The loss that \<^verbatim>\<open>outputs.loss.item()\<close> returns is a Python float. Its finite values are
  taken as real numbers (rounding is not modelled); the infinities and NaN are kept, since
  the comparison \<^verbatim>\<open>loss < min_loss\<close> depends on them: every comparison with NaN is false.
\<close>

datatype pyfloat = Finite real | PosInf | NegInf | NaN

fun flt :: "pyfloat \<Rightarrow> pyfloat \<Rightarrow> bool" where
  "flt NaN y = False"
| "flt x NaN = False"
| "flt (Finite a) (Finite b) = (a < b)"
| "flt (Finite a) PosInf = True"
| "flt (Finite a) NegInf = False"
| "flt PosInf y = False"
| "flt NegInf (Finite b) = True"
| "flt NegInf PosInf = True"
| "flt NegInf NegInf = False"

fun fadd :: "pyfloat \<Rightarrow> pyfloat \<Rightarrow> pyfloat" where
  "fadd NaN y = NaN"
| "fadd x NaN = NaN"
| "fadd (Finite a) (Finite b) = Finite (a + b)"
| "fadd PosInf NegInf = NaN"
| "fadd NegInf PosInf = NaN"
| "fadd PosInf y = PosInf"
| "fadd x PosInf = PosInf"
| "fadd NegInf y = NegInf"
| "fadd x NegInf = NegInf"

text \<open>Division of a float by a positive batch count.\<close>

fun fdiv_count :: "pyfloat \<Rightarrow> nat \<Rightarrow> pyfloat" where
  "fdiv_count (Finite a) num = Finite (a / real num)"
| "fdiv_count x num = x"

section \<open>The grid search \<^verbatim>\<open>search_eta\<close>\<close>

text \<open>Line 314.\<close>

definition eta_list :: "real list" where
  "eta_list = [10, 5, 1, 5 / 10, 1 / 10, 5 / 100, 1 / 100, 5 / 1000, 1 / 1000,
               5 / 10000, 1 / 10000]"

text \<open>
  The loop of lines 324-333 over the batches that the data loader yields, in order.
  \<open>forward\<close> is the model's forward pass on a batch, as a function of the parameters: it
  returns the loss or raises. Clearing \<^verbatim>\<open>p.grad\<close> does not touch the parameters' data.
\<close>

fun compute_loss ::
  "(('l, 'c) named_parameters \<Rightarrow> 'b \<Rightarrow> error + pyfloat) \<Rightarrow> ('l, 'c) named_parameters \<Rightarrow> 'b list \<Rightarrow>
     nat \<Rightarrow> pyfloat \<Rightarrow> error + (nat \<times> pyfloat)" where
  "compute_loss forward model [] num loss = Inr (num, loss)"
| "compute_loss forward model (batch # batches) num loss =
     (case forward model batch of
        Inl e \<Rightarrow> Inl e
      | Inr l \<Rightarrow> compute_loss forward model batches (num + 1) (fadd loss l))"

text \<open>Lines 324-335: \<^verbatim>\<open>loss /= num\<close> raises ZeroDivisionError when there was no batch.\<close>

definition mean_loss ::
  "(('l, 'c) named_parameters \<Rightarrow> 'b \<Rightarrow> error + pyfloat) \<Rightarrow> ('l, 'c) named_parameters \<Rightarrow> 'b list \<Rightarrow>
     error + pyfloat" where
  "mean_loss forward model dataloader =
     (case compute_loss forward model dataloader 0 (Finite 0) of
        Inl e \<Rightarrow> Inl e
      | Inr (num, loss) \<Rightarrow>
          if num = 0 then Inl ZeroDivisionError else Inr (fdiv_count loss num))"

text \<open>
  The block of the \<^verbatim>\<open>with\<close> statement, lines 321-342: the running minimum and the best
  eta so far go in, and come out updated when the comparison of line 338 succeeds.
\<close>

definition eval_candidate ::
  "(('l, 'c) named_parameters \<Rightarrow> 'b \<Rightarrow> error + pyfloat) \<Rightarrow> 'b list \<Rightarrow> real \<Rightarrow>
     pyfloat \<times> real option \<Rightarrow> ('l, 'c) named_parameters \<Rightarrow>
     ('l, 'c) named_parameters \<times> (error + pyfloat \<times> real option)" where
  "eval_candidate forward dataloader eta st model =
     (model,
      case mean_loss forward model dataloader of
        Inl e \<Rightarrow> Inl e
      | Inr loss \<Rightarrow> Inr (if flt loss (fst st) then (loss, Some eta) else st))"

fun search_loop ::
  "(real \<Rightarrow> 'd \<Rightarrow> ('l, 'c) tensor \<Rightarrow> error + 'c) \<Rightarrow>
     (('l, 'c) tensor \<Rightarrow> ('l, 'c) tensor \<Rightarrow> error + 'c) \<Rightarrow>
     (('l, 'c) named_parameters \<Rightarrow> 'b \<Rightarrow> error + pyfloat) \<Rightarrow>
     'b list \<Rightarrow> (string \<rightharpoonup> 'd) \<Rightarrow> real list \<Rightarrow> pyfloat \<times> real option \<Rightarrow>
     ('l, 'c) named_parameters \<Rightarrow> (error + real option) \<times> ('l, 'c) named_parameters" where
  "search_loop isub convert forward dataloader named_grad [] st model = (Inr (snd st), model)"
| "search_loop isub convert forward dataloader named_grad (eta # etas) st model =
     (case temporary_weights isub convert model named_grad eta
             (eval_candidate forward dataloader eta st) of
        (EnterRaised e, model') \<Rightarrow> (Inl e, model')
      | (ExitRaised e, model') \<Rightarrow> (Inl e, model')
      | (BlockRaised e, model') \<Rightarrow> (Inl e, model')
      | (BlockReturned st', model') \<Rightarrow>
          search_loop isub convert forward dataloader named_grad etas st' model')"

text \<open>
  \<^verbatim>\<open>search_eta\<close>: the keyword arguments either hold \<^verbatim>\<open>named_grads\<close> or the lookup of
  line 318 raises KeyError. The result is the returned value (Python's \<^verbatim>\<open>None\<close> is
  \<open>None\<close>) or the error raised, and the parameters as the call leaves them.
\<close>

definition search_eta ::
  "(real \<Rightarrow> 'd \<Rightarrow> ('l, 'c) tensor \<Rightarrow> error + 'c) \<Rightarrow>
     (('l, 'c) tensor \<Rightarrow> ('l, 'c) tensor \<Rightarrow> error + 'c) \<Rightarrow>
     (('l, 'c) named_parameters \<Rightarrow> 'b \<Rightarrow> error + pyfloat) \<Rightarrow>
     ('l, 'c) named_parameters \<Rightarrow> 'b list \<Rightarrow> (string \<rightharpoonup> 'd) option \<Rightarrow>
     (error + real option) \<times> ('l, 'c) named_parameters" where
  "search_eta isub convert forward model dataloader named_grads =
     (case named_grads of
        None \<Rightarrow> (Inl (KeyError ''named_grads''), model)
      | Some named_grad \<Rightarrow>
          search_loop isub convert forward dataloader named_grad eta_list (PosInf, None) model)"

text \<open>
  The mean calibration loss of a candidate: the mean loss of the model whose parameters
  are the given ones with \<open>eta\<close> times the gradient subtracted.
\<close>

definition candidate_loss ::
  "(real \<Rightarrow> 'd \<Rightarrow> ('l, 'c) tensor \<Rightarrow> error + 'c) \<Rightarrow> (('l, 'c) named_parameters \<Rightarrow> 'b \<Rightarrow> error + pyfloat) \<Rightarrow>
     ('l, 'c) named_parameters \<Rightarrow> 'b list \<Rightarrow> (string \<rightharpoonup> 'd) \<Rightarrow> real \<Rightarrow> error + pyfloat" where
  "candidate_loss isub forward model dataloader named_grad eta =
     (case apply_adapted isub named_grad eta model of
        (Some e, model1) \<Rightarrow> Inl e
      | (None, model1) \<Rightarrow> mean_loss forward model1 dataloader)"

text \<open>The selection of lines 338-340 alone, over a given loss for each candidate.\<close>

fun select_best :: "(real \<Rightarrow> pyfloat) \<Rightarrow> real list \<Rightarrow> pyfloat \<times> real option \<Rightarrow> pyfloat \<times> real option" where
  "select_best L [] st = st"
| "select_best L (eta # etas) st =
     select_best L etas (if flt (L eta) (fst st) then (L eta, Some eta) else st)"

text \<open>
  The mean of the batch losses, stated apart from the loop of lines 324-335, to compare
  the loop with it: NaN when a loss is NaN or both infinities occur, an infinity when it
  alone occurs, and else the sum of the losses divided by their number.
\<close>

fun finite_value :: "pyfloat \<Rightarrow> real" where
  "finite_value (Finite a) = a"
| "finite_value x = 0"

definition arithmetic_mean :: "pyfloat list \<Rightarrow> pyfloat" where
  "arithmetic_mean ls =
     (if NaN \<in> set ls \<or> (PosInf \<in> set ls \<and> NegInf \<in> set ls) then NaN
      else if PosInf \<in> set ls then PosInf
      else if NegInf \<in> set ls then NegInf
      else Finite (sum_list (map finite_value ls) / real (length ls)))"

text \<open>The loss of a candidate whose evaluation did not raise.\<close>

definition loss_of :: "error + pyfloat \<Rightarrow> pyfloat" where
  "loss_of r = (case r of Inl e \<Rightarrow> NaN | Inr l \<Rightarrow> l)"

section \<open>The gradient estimate \<^verbatim>\<open>estimate_gradient\<close>\<close>

text \<open>
  What \<^verbatim>\<open>estimate_gradient\<close> reads and writes of the model: the names of
  \<^verbatim>\<open>named_parameters()\<close> with each parameter's \<^verbatim>\<open>requires_grad\<close>, the \<^verbatim>\<open>.grad\<close> field of
  each parameter (absent when it is \<^verbatim>\<open>None\<close>), and the hooks registered on the
  parameters: each registration has a handle, and handles are issued in increasing order.
  The gradient type \<open>'g\<close> is left open; \<open>add\<close> is the tensor addition of \<^verbatim>\<open>+=\<close>.
\<close>

record 'g model_state =
  params :: "(string \<times> bool) list"
  grad :: "string \<rightharpoonup> 'g"
  hook_registry :: "(nat \<times> string) list"
  next_handle :: nat

text \<open>Lines 353-356: the first gradient of a name is stored, a later one is added.\<close>

definition accumulate :: "('g \<Rightarrow> 'g \<Rightarrow> 'g) \<Rightarrow> (string \<rightharpoonup> 'g) \<Rightarrow> string \<Rightarrow> 'g \<Rightarrow> (string \<rightharpoonup> 'g)" where
  "accumulate add m n g = m(n \<mapsto> (case m n of None \<Rightarrow> g | Some old \<Rightarrow> add old g))"

text \<open>
  \<^verbatim>\<open>record_gradient_hook\<close>, lines 350-358, on the pair of the \<^verbatim>\<open>.grad\<close> fields and
  \<^verbatim>\<open>record_dict\<close>: every pending gradient of a parameter that requires one moves into the
  dictionary.
\<close>

fun record_gradient_hook ::
  "('g \<Rightarrow> 'g \<Rightarrow> 'g) \<Rightarrow> (string \<times> bool) list \<Rightarrow> (string \<rightharpoonup> 'g) \<times> (string \<rightharpoonup> 'g) \<Rightarrow>
     (string \<rightharpoonup> 'g) \<times> (string \<rightharpoonup> 'g)" where
  "record_gradient_hook add [] (gr, record_dict) = (gr, record_dict)"
| "record_gradient_hook add ((n, rg) # ps) (gr, record_dict) =
     (case gr n of
        None \<Rightarrow> record_gradient_hook add ps (gr, record_dict)
      | Some g \<Rightarrow>
          if rg then record_gradient_hook add ps (gr(n := None), accumulate add record_dict n g)
          else record_gradient_hook add ps (gr, record_dict))"

text \<open>
  One backward pass. Autograd hands the gradients to the parameters one after the other;
  \<open>deliveries\<close> is that sequence. A tensor hook runs before the gradient is written to
  \<^verbatim>\<open>.grad\<close>, which is why line 383 calls the hook once more after the pass. The hooks are
  registered on the parameters of \<^verbatim>\<open>named_parameters()\<close> only.
\<close>

fun backward_pass ::
  "('g \<Rightarrow> 'g \<Rightarrow> 'g) \<Rightarrow> (string \<times> bool) list \<Rightarrow> (string \<times> 'g) list \<Rightarrow>
     (string \<rightharpoonup> 'g) \<times> (string \<rightharpoonup> 'g) \<Rightarrow> (string \<rightharpoonup> 'g) \<times> (string \<rightharpoonup> 'g)" where
  "backward_pass add ps [] st = st"
| "backward_pass add ps ((n, g) # deliveries) st =
     (case (if n \<in> fst ` set ps then record_gradient_hook add ps st else st) of
        (gr, record_dict) \<Rightarrow>
          backward_pass add ps deliveries (accumulate add gr n g, record_dict))"

text \<open>Lines 385-387.\<close>

definition clear_grads :: "(string \<times> bool) list \<Rightarrow> (string \<rightharpoonup> 'g) \<Rightarrow> (string \<rightharpoonup> 'g)" where
  "clear_grads ps gr = fold (\<lambda>(n, rg) m. m(n := None)) ps gr"

text \<open>
  The loop of lines 378-387. \<open>forward_backward\<close> is the forward and the backward pass on
  a batch: the gradients it delivers, and the error it raised, if any, after them.
\<close>

fun estimate_batches ::
  "('g \<Rightarrow> 'g \<Rightarrow> 'g) \<Rightarrow> ('b \<Rightarrow> (string \<times> 'g) list \<times> error option) \<Rightarrow> (string \<times> bool) list \<Rightarrow>
     'b list \<Rightarrow> nat \<Rightarrow> (string \<rightharpoonup> 'g) \<times> (string \<rightharpoonup> 'g) \<Rightarrow>
     error option \<times> nat \<times> (string \<rightharpoonup> 'g) \<times> (string \<rightharpoonup> 'g)" where
  "estimate_batches add forward_backward ps [] num st = (None, num, st)"
| "estimate_batches add forward_backward ps (batch # batches) num st =
     (case forward_backward batch of
        (deliveries, Some e) \<Rightarrow> (Some e, num + 1, backward_pass add ps deliveries st)
      | (deliveries, None) \<Rightarrow>
          (case record_gradient_hook add ps (backward_pass add ps deliveries st) of
             (gr, record_dict) \<Rightarrow>
               estimate_batches add forward_backward ps batches (num + 1)
                 (clear_grads ps gr, record_dict)))"

text \<open>
  Lines 373-375. \<^verbatim>\<open>register_hook\<close> raises RuntimeError on a tensor that does not require a
  gradient; the hooks registered before stay.
\<close>

fun register_hooks ::
  "(string \<times> bool) list \<Rightarrow> nat list \<Rightarrow> nat \<Rightarrow> (nat \<times> string) list \<Rightarrow>
     error option \<times> nat list \<times> nat \<times> (nat \<times> string) list" where
  "register_hooks [] hooks nh reg = (None, hooks, nh, reg)"
| "register_hooks ((n, rg) # ps) hooks nh reg =
     (if rg then register_hooks ps (hooks @ [nh]) (nh + 1) (reg @ [(nh, n)])
      else (Some RuntimeError, hooks, nh, reg))"

text \<open>\<^verbatim>\<open>hook.remove()\<close> for every handle of the list, lines 390-391.\<close>

definition remove_hooks :: "nat list \<Rightarrow> (nat \<times> string) list \<Rightarrow> (nat \<times> string) list" where
  "remove_hooks hooks reg = filter (\<lambda>(h, n). h \<notin> set hooks) reg"

text \<open>
  \<^verbatim>\<open>estimate_gradient\<close>: the returned dictionary or the error raised, and the model as the
  call leaves it. \<open>divn\<close> is the division of a tensor by the batch count, line 389.
\<close>

definition estimate_gradient ::
  "('g \<Rightarrow> 'g \<Rightarrow> 'g) \<Rightarrow> ('g \<Rightarrow> nat \<Rightarrow> 'g) \<Rightarrow> ('b \<Rightarrow> (string \<times> 'g) list \<times> error option) \<Rightarrow>
     'g model_state \<Rightarrow> 'b list \<Rightarrow> (error + (string \<rightharpoonup> 'g)) \<times> 'g model_state" where
  "estimate_gradient add divn forward_backward model dataloader =
     (case register_hooks (params model) [] (next_handle model) (hook_registry model) of
        (Some e, hooks, nh, reg) \<Rightarrow>
          (Inl e, model\<lparr>hook_registry := reg, next_handle := nh\<rparr>)
      | (None, hooks, nh, reg) \<Rightarrow>
          (case estimate_batches add forward_backward (params model) dataloader 0
                  (grad model, Map.empty) of
             (Some e, num, gr, named_grads) \<Rightarrow>
               (Inl e, model\<lparr>grad := gr, hook_registry := reg, next_handle := nh\<rparr>)
           | (None, num, gr, named_grads) \<Rightarrow>
               (Inr (\<lambda>n. map_option (\<lambda>g. divn g num) (named_grads n)),
                model\<lparr>grad := gr, hook_registry := remove_hooks hooks reg,
                      next_handle := nh\<rparr>)))"

text \<open>The gradients that the batches deliver to a parameter, in order.\<close>

definition delivered :: "('b \<Rightarrow> (string \<times> 'g) list \<times> error option) \<Rightarrow> 'b list \<Rightarrow> string \<Rightarrow> 'g list" where
  "delivered forward_backward dataloader n =
     map snd (filter (\<lambda>(m, g). m = n) (concat (map (\<lambda>batch. fst (forward_backward batch)) dataloader)))"

text \<open>
  For the proofs: adding a gradient to an entry that may be absent, and the content of a
  dictionary entry once the pending gradient of the parameter is moved into it.
\<close>

definition acc :: "('g \<Rightarrow> 'g \<Rightarrow> 'g) \<Rightarrow> 'g option \<Rightarrow> 'g \<Rightarrow> 'g option" where
  "acc add r g = Some (case r of None \<Rightarrow> g | Some old \<Rightarrow> add old g)"

definition merged :: "('g \<Rightarrow> 'g \<Rightarrow> 'g) \<Rightarrow> string \<Rightarrow> (string \<rightharpoonup> 'g) \<times> (string \<rightharpoonup> 'g) \<Rightarrow> 'g option" where
  "merged add n st = (case fst st n of None \<Rightarrow> snd st n | Some g \<Rightarrow> acc add (snd st n) g)"

section \<open>Matrices\<close>

text \<open>
  A 2-D tensor is the list of its rows and a 1-D tensor is a list. The entries are real
  numbers. Infinities and NaN are not modelled, so the arithmetic below is the code's on
  inputs where it divides by no zero and takes no square root of a negative number;
  where the code branches on such a value (the clipping ratio) the case is written out.
  Rounding is modelled where a result is stored in a tensor of a given dtype in lines
  216-268 (the casts, the offset and the subtraction): there the entries are rounded to
  that dtype by the library's rounding. The arithmetic inside the branches of the modes
  is exact.
\<close>

type_synonym matrix = "real list list"

definition shape :: "matrix \<Rightarrow> nat \<times> nat" where
  "shape M = (length M, case M of [] \<Rightarrow> 0 | row # rows \<Rightarrow> length row)"

definition smul :: "real \<Rightarrow> matrix \<Rightarrow> matrix" where
  "smul c M = map (map (\<lambda>x. c * x)) M"

definition sdiv :: "matrix \<Rightarrow> real \<Rightarrow> matrix" where
  "sdiv M c = map (map (\<lambda>x. x / c)) M"

definition neg :: "matrix \<Rightarrow> matrix" where
  "neg M = map (map uminus) M"

text \<open>\<^verbatim>\<open>B @ A\<close>: the inner dimensions must agree.\<close>

definition matmul :: "matrix \<Rightarrow> matrix \<Rightarrow> error + matrix" where
  "matmul B A =
     (if \<forall>row \<in> set B. length row = length A
      then Inr (map (\<lambda>row. map (\<lambda>col. sum_list (map2 (*) row col)) (transpose A)) B)
      else Inl RuntimeError)"

definition same_shape :: "matrix \<Rightarrow> matrix \<Rightarrow> bool" where
  "same_shape W X = (length W = length X \<and> list_all2 (\<lambda>r s. length r = length s) W X)"

text \<open>Element-wise sum and difference of two matrices of one shape.\<close>

definition mat_add :: "matrix \<Rightarrow> matrix \<Rightarrow> error + matrix" where
  "mat_add W X = (if same_shape W X then Inr (map2 (map2 (+)) W X) else Inl RuntimeError)"

definition mat_sub :: "matrix \<Rightarrow> matrix \<Rightarrow> error + matrix" where
  "mat_sub W X = (if same_shape W X then Inr (map2 (map2 (-)) W X) else Inl RuntimeError)"

text \<open>
  The product of a matrix with a vector along its columns, as broadcasting does it:
  the lengths agree, or one of them is 1.
\<close>

definition bmul_row :: "real list \<Rightarrow> real list \<Rightarrow> (real list) option" where
  "bmul_row row v =
     (if length row = length v then Some (map2 (*) row v)
      else if length v = 1 then Some (map (\<lambda>x. x * hd v) row)
      else if length row = 1 then Some (map (\<lambda>y. hd row * y) v)
      else None)"

definition bmul :: "matrix \<Rightarrow> real list \<Rightarrow> error + matrix" where
  "bmul M v =
     (if \<forall>row \<in> set M. bmul_row row v \<noteq> None
      then Inr (map (\<lambda>row. the (bmul_row row v)) M)
      else Inl RuntimeError)"

definition diag :: "real list \<Rightarrow> matrix" where
  "diag v = map (\<lambda>i. map (\<lambda>j. if i = j then v ! i else 0) [0 ..< length v]) [0 ..< length v]"

text \<open>\<^verbatim>\<open>torch.max(torch.abs(M))\<close> raises on a tensor without elements.\<close>

definition max_abs :: "matrix \<Rightarrow> error + real" where
  "max_abs M = (case concat M of [] \<Rightarrow> Inl RuntimeError
                | x # xs \<Rightarrow> Inr (fold (\<lambda>y m. max \<bar>y\<bar> m) xs \<bar>x\<bar>))"

text \<open>\<^verbatim>\<open>torch.norm(V, p=2, dim=1)\<close>.\<close>

definition row_norms :: "matrix \<Rightarrow> real list" where
  "row_norms M = map (\<lambda>row. sqrt (sum_list (map (\<lambda>x. x * x) row))) M"

definition mean :: "real list \<Rightarrow> real" where
  "mean v = sum_list v / real (length v)"

section \<open>Modules and configurations\<close>

text \<open>
  A LoRA linear layer: the base weight and its dtype, the two factors of the adapter
  \<open>default\<close> and their dtype, its scaling factor, and the magnitude vector that exists
  when DoRA is in use. The dtypes are \<^verbatim>\<open>float32\<close>, \<^verbatim>\<open>bfloat16\<close> and \<^verbatim>\<open>float16\<close>.
\<close>

record lora_linear =
  weight :: matrix
  weight_dtype :: string
  lora_A :: matrix
  lora_B :: matrix
  factor_dtype :: string
  scaling :: real
  lora_magnitude_vector :: "real list option"

text \<open>
  \<^verbatim>\<open>init_config\<close>. A key that the code reads with \<^verbatim>\<open>get\<close> or tests with \<^verbatim>\<open>in\<close> may be
  absent: \<open>scale\<close> is then the empty string, the default of line 124, and \<open>dtype\<close> and
  \<open>norm_clip\<close> are \<open>None\<close>. The fields \<open>lora_A_init\<close> and \<open>lora_B_init\<close> are the keys
  \<^verbatim>\<open>lora_A\<close> and \<^verbatim>\<open>lora_B\<close>.
\<close>

record init_config =
  mode :: string
  lora_A_init :: string
  lora_A_std :: real
  lora_B_init :: string
  lora_B_std :: real
  scale :: string
  stable_gamma :: real
  direction :: string
  dtype :: "string option"
  norm_clip :: "bool option"

record peft_conf =
  dora :: bool
  lora_alpha :: real

text \<open>
  What the code takes from the library and does not compute itself: the random
  initialisers (each returns the new content of the tensor it is given), the randomised
  truncated SVD, and the rounding of a real number to the nearest value of a
  floating-point type.
\<close>

record torch =
  init_normal :: "matrix \<Rightarrow> real \<Rightarrow> real \<Rightarrow> matrix"
  init_kaiming_uniform :: "matrix \<Rightarrow> real \<Rightarrow> matrix"
  init_kaiming_normal :: "matrix \<Rightarrow> string \<Rightarrow> matrix"
  init_xavier_normal :: "matrix \<Rightarrow> matrix"
  init_orthogonal :: "matrix \<Rightarrow> matrix"
  svd_lowrank :: "matrix \<Rightarrow> nat \<Rightarrow> nat \<Rightarrow> matrix \<times> real list \<times> matrix"
  to_dtype :: "string \<Rightarrow> real \<Rightarrow> real"

definition zeros :: "matrix \<Rightarrow> matrix" where
  "zeros M = map (map (\<lambda>x. 0)) M"

definition cast :: "torch \<Rightarrow> string \<Rightarrow> matrix \<Rightarrow> matrix" where
  "cast t ty M = map (map (to_dtype t ty)) M"

text \<open>Lines 73-75; \<open>layer\<close> is the argument \<^verbatim>\<open>module\<close>.\<close>

definition lora_r :: "lora_linear \<Rightarrow> nat" where
  "lora_r layer = min (fst (shape (lora_A layer))) (snd (shape (lora_A layer)))"

definition a_dim :: "lora_linear \<Rightarrow> nat" where
  "a_dim layer = max (fst (shape (lora_A layer))) (snd (shape (lora_A layer)))"

definition b_dim :: "lora_linear \<Rightarrow> nat" where
  "b_dim layer = max (fst (shape (lora_B layer))) (snd (shape (lora_B layer)))"

section \<open>The initialiser \<^verbatim>\<open>reinit_lora_modules\<close>\<close>

text \<open>
  Every stage returns the error it raised, if any, and the layer as it leaves it: an
  assignment made before an exception stays.
\<close>

subsection \<open>Mode \<^verbatim>\<open>simple\<close>, lines 76-127\<close>

definition init_lora_A :: "torch \<Rightarrow> init_config \<Rightarrow> lora_linear \<Rightarrow> error + matrix" where
  "init_lora_A t cfg layer =
     (let W = lora_A layer; kind = lora_A_init cfg in
      if kind = ''gaussian'' then Inr (init_normal t W 0 (lora_A_std cfg))
      else if kind = ''kaiming'' then Inr (init_kaiming_uniform t W (sqrt 5))
      else if kind = ''fan_out_kaiming'' then Inr (init_kaiming_normal t W ''fan_out'')
      else if kind = ''xavier'' then Inr (init_xavier_normal t W)
      else if kind = ''zeros'' then Inr (zeros W)
      else if kind = ''unit'' then
        (if a_dim layer = 0 then Inl ZeroDivisionError
         else Inr (init_normal t W 0 (1 / sqrt (real (a_dim layer)))))
      else if kind = ''orthogonal'' then Inr (init_orthogonal t W)
      else Inl (ValueError (''Unknown lora_A initialization: '' @ kind)))"

definition init_lora_B :: "torch \<Rightarrow> init_config \<Rightarrow> lora_linear \<Rightarrow> error + matrix" where
  "init_lora_B t cfg layer =
     (let W = lora_B layer; kind = lora_B_init cfg in
      if kind = ''gaussian'' then Inr (init_normal t W 0 (lora_B_std cfg))
      else if kind = ''kaiming'' then Inr (init_kaiming_normal t W ''fan_in'')
      else if kind = ''fan_out_kaiming'' then Inr (init_kaiming_normal t W ''fan_out'')
      else if kind = ''xavier'' then Inr (init_xavier_normal t W)
      else if kind = ''zeros'' then Inr (zeros W)
      else if kind = ''unit'' then
        (if b_dim layer = 0 then Inl ZeroDivisionError
         else Inr (init_normal t W 0 (1 / sqrt (real (b_dim layer)))))
      else if kind = ''orthogonal'' then Inr (init_orthogonal t W)
      else Inl (ValueError (''Unknown lora_B initialization: '' @ kind)))"

text \<open>
  Lines 124-127 read the local variables \<^verbatim>\<open>m\<close> and \<^verbatim>\<open>n\<close>. The function binds them at
  lines 131 and 191 only, in the branches of the other two modes, so in this branch the
  read of \<^verbatim>\<open>m\<close> on the right-hand side of line 126 raises before anything is rescaled.
\<close>

definition reinit_simple :: "torch \<Rightarrow> lora_linear \<Rightarrow> init_config \<Rightarrow> error option \<times> lora_linear" where
  "reinit_simple t layer cfg =
     (case init_lora_A t cfg layer of
        Inl e \<Rightarrow> (Some e, layer)
      | Inr A \<Rightarrow>
          (let layer1 = layer\<lparr>lora_A := A\<rparr> in
           case init_lora_B t cfg layer1 of
             Inl e \<Rightarrow> (Some e, layer1)
           | Inr B \<Rightarrow>
               (let layer2 = layer1\<lparr>lora_B := B\<rparr> in
                if scale cfg = ''stable'' then (Some (UnboundLocalError ''m''), layer2)
                else (None, layer2))))"

subsection \<open>Mode \<^verbatim>\<open>svd\<close>, lines 128-162\<close>

text \<open>
  The decomposition is the one of \<^verbatim>\<open>module.weight.float()\<close>, so the new factors are
  \<^verbatim>\<open>float32\<close> parameters.
\<close>

definition reinit_svd :: "torch \<Rightarrow> lora_linear \<Rightarrow> init_config \<Rightarrow> error option \<times> lora_linear" where
  "reinit_svd t layer cfg =
     (case svd_lowrank t (weight layer) (4 * lora_r layer) 4 of
        (U, S, V0) \<Rightarrow>
          (let r = lora_r layer; V = transpose V0;
               m = fst (shape (weight layer)); n = snd (shape (weight layer)) in
           if scale cfg = ''default'' then
             (let S' = map (\<lambda>s. s / scaling layer) S in
              case bmul (map (take r) U) (map sqrt (take r S')) of
                Inl e \<Rightarrow> (Some e, layer)
              | Inr B \<Rightarrow>
                  (case bmul (transpose (take r V)) (map sqrt (take r S')) of
                     Inl e \<Rightarrow> (Some e, layer\<lparr>lora_B := B\<rparr>)
                   | Inr AT \<Rightarrow>
                       (None, layer\<lparr>lora_B := B, lora_A := transpose AT,
                          factor_dtype := ''float32''\<rparr>)))
           else if scale cfg = ''stable'' then
             (let gamma = stable_gamma cfg in
              (None, layer\<lparr>lora_B := sdiv (smul (real m powr (1 / 4)) (map (take r) U)) (gamma powr (1 / 2)),
                           lora_A := sdiv (smul (real n powr (1 / 4)) (take r V)) (gamma powr (1 / 2)),
                           factor_dtype := ''float32''\<rparr>))
           else if scale cfg = ''unit'' then
             (None, layer\<lparr>lora_B := map (take r) U, lora_A := take r V,
                          factor_dtype := ''float32''\<rparr>)
           else if scale cfg = ''normalized'' then
             (let S_sum = sum_list (take r S) in
              case bmul (map (take r) U) (map sqrt (take r S)) of
                Inl e \<Rightarrow> (Some e, layer)
              | Inr B0 \<Rightarrow>
                  (let B = smul (real r powr (1 / 2)) (sdiv B0 (sqrt S_sum)) in
                   case bmul (transpose (take r V)) (map sqrt (take r S)) of
                     Inl e \<Rightarrow> (Some e, layer\<lparr>lora_B := B\<rparr>)
                   | Inr AT \<Rightarrow>
                       (None, layer\<lparr>lora_B := B,
                          lora_A := transpose (smul (real r powr (1 / 2)) (sdiv AT (sqrt S_sum))),
                          factor_dtype := ''float32''\<rparr>)))
           else (None, layer)))"

subsection \<open>Mode \<^verbatim>\<open>gradient\<close>, lines 163-214\<close>

text \<open>\<^verbatim>\<open>name.split(".")\<close> and \<^verbatim>\<open>".".join\<close>, for line 165.\<close>

fun split_dot :: "string \<Rightarrow> string list" where
  "split_dot [] = [[]]"
| "split_dot (c # cs) =
     (if c = CHR ''.'' then [] # split_dot cs
      else (case split_dot cs of [] \<Rightarrow> [[c]] | w # ws \<Rightarrow> (c # w) # ws))"

fun join_dot :: "string list \<Rightarrow> string" where
  "join_dot [] = []"
| "join_dot [w] = w"
| "join_dot (w # ws) = w @ ''.'' @ join_dot ws"

definition grad_name :: "string \<Rightarrow> string" where
  "grad_name name = join_dot (drop 2 (split_dot name)) @ ''.weight''"

text \<open>
  Lines 172-177, on \<^verbatim>\<open>U\<close>, \<^verbatim>\<open>S\<close> and the transposed \<^verbatim>\<open>V\<close>. With any other direction
  neither \<^verbatim>\<open>B\<close> nor \<^verbatim>\<open>A\<close> is bound: the result is \<open>None\<close>, and the first read of one of
  them raises.
\<close>

definition gradient_direction ::
  "string \<Rightarrow> nat \<Rightarrow> matrix \<Rightarrow> real list \<Rightarrow> matrix \<Rightarrow> error + (matrix \<times> matrix) option" where
  "gradient_direction dir r U S V =
     (if dir = ''LoRA-One'' then
        (case matmul (map (take r) U) (diag (map sqrt (take r S))) of
           Inl e \<Rightarrow> Inl e
         | Inr UB \<Rightarrow>
             (case S of
                [] \<Rightarrow> Inl IndexError
              | s0 # rest \<Rightarrow>
                  (case matmul (diag (map sqrt (take r S))) (take r V) of
                     Inl e \<Rightarrow> Inl e
                   | Inr VA \<Rightarrow> Inr (Some (sdiv UB (sqrt s0), sdiv VA (sqrt s0))))))
      else if dir = ''LoRA-GA'' then
        Inr (Some (map (\<lambda>row. take r (drop r row)) U, take r V))
      else Inr None)"

text \<open>Lines 178-201, on the pair (\<^verbatim>\<open>B\<close>, \<^verbatim>\<open>A\<close>).\<close>

definition gradient_scale ::
  "torch \<Rightarrow> lora_linear \<Rightarrow> init_config \<Rightarrow> matrix \<Rightarrow> (matrix \<times> matrix) option \<Rightarrow>
     error + (matrix \<times> matrix) option" where
  "gradient_scale t layer cfg grads BA =
     (let scaling_factor = scaling layer; gamma = stable_gamma cfg in
      if scale cfg = ''gd'' then
        (case BA of
           None \<Rightarrow> Inl (UnboundLocalError ''A'')
         | Some (B, A) \<Rightarrow> Inr (Some (sdiv B scaling_factor, sdiv A scaling_factor)))
      else if scale cfg = ''unit'' then Inr BA
      else if scale cfg = ''stable'' then
        (if direction cfg = ''LoRA-One'' then
           (case BA of
              None \<Rightarrow> Inl (UnboundLocalError ''B'')
            | Some (B, A) \<Rightarrow> Inr (Some (sdiv B (gamma powr (1 / 2)), sdiv A (gamma powr (1 / 2)))))
         else
           (case BA of
              None \<Rightarrow> Inl (UnboundLocalError ''B'')
            | Some (B, A) \<Rightarrow>
                (let m = fst (shape grads) in
                 Inr (Some (sdiv (smul (real m powr (1 / 4)) B) (gamma powr (1 / 2)),
                            sdiv (smul (real m powr (1 / 4)) A) (gamma powr (1 / 2)))))))
      else if scale cfg = ''weightS'' then
        (case svd_lowrank t (weight layer) (4 * lora_r layer) 4 of
           (U', S, V') \<Rightarrow>
             (let avg_s = mean (map sqrt (take (lora_r layer) (map (\<lambda>s. s / scaling layer) S))) in
              case BA of
                None \<Rightarrow> Inl (UnboundLocalError ''A'')
              | Some (B, A) \<Rightarrow> Inr (Some (smul avg_s B, smul avg_s A))))
      else Inr BA)"

text \<open>
  Lines 203-214: the magnitude vector of DoRA, and the new factors, from the pair
  (\<^verbatim>\<open>B\<close>, \<^verbatim>\<open>A\<close>) if it is bound. They come from \<^verbatim>\<open>grads.cuda().float()\<close>, so
  they are \<^verbatim>\<open>float32\<close> parameters.
\<close>

definition assign_factors ::
  "lora_linear \<Rightarrow> peft_conf \<Rightarrow> (matrix \<times> matrix) option \<Rightarrow> error option \<times> lora_linear" where
  "assign_factors layer peft BA =
     (if dora peft then
        (if lora_r layer = 0 then (Some ZeroDivisionError, layer)
         else
           (case BA of
              None \<Rightarrow> (Some (UnboundLocalError ''B''), layer)
            | Some (B, A) \<Rightarrow>
                (case matmul (smul (lora_alpha peft / sqrt (real (lora_r layer))) B) A of
                   Inl e \<Rightarrow> (Some e, layer)
                 | Inr P \<Rightarrow>
                     (case mat_add (weight layer) P of
                        Inl e \<Rightarrow> (Some e, layer)
                      | Inr Vt \<Rightarrow>
                          (case lora_magnitude_vector layer of
                             None \<Rightarrow>
                               (Some (AttributeError ''lora_magnitude_vector''),
                                layer\<lparr>lora_A := A, lora_B := B\<rparr>)
                           | Some old \<Rightarrow>
                               (None, layer\<lparr>lora_A := A, lora_B := B,
                                  factor_dtype := ''float32'',
                                  lora_magnitude_vector := Some (row_norms Vt)\<rparr>))))))
      else
        (case BA of
           None \<Rightarrow> (Some (UnboundLocalError ''B''), layer)
         | Some (B, A) \<Rightarrow>
             (None, layer\<lparr>lora_A := A, lora_B := B, factor_dtype := ''float32''\<rparr>)))"

text \<open>
  Lines 163-214. \<open>named_grads\<close> is the keyword argument of that name, \<open>None\<close> when the
  call has none.
\<close>

definition reinit_gradient ::
  "torch \<Rightarrow> string \<Rightarrow> lora_linear \<Rightarrow> init_config \<Rightarrow> peft_conf \<Rightarrow> (string \<rightharpoonup> matrix) option \<Rightarrow>
     error option \<times> lora_linear" where
  "reinit_gradient t name layer cfg peft named_grads =
     (case named_grads of
        None \<Rightarrow> (Some (KeyError ''named_grads''), layer)
      | Some named_grad \<Rightarrow>
          (case named_grad (grad_name name) of
             None \<Rightarrow> (Some (KeyError (grad_name name)), layer)
           | Some grads \<Rightarrow>
               (case (if direction cfg = ''LoRA-One'' then svd_lowrank t (neg grads) 512 16
                      else svd_lowrank t grads 512 16) of
                  (U, S, V0) \<Rightarrow>
                    (case gradient_direction (direction cfg) (lora_r layer) U S (transpose V0) of
                       Inl e \<Rightarrow> (Some e, layer)
                     | Inr BA0 \<Rightarrow>
                         (case gradient_scale t layer cfg grads BA0 of
                            Inl e \<Rightarrow> (Some e, layer)
                          | Inr BA \<Rightarrow> assign_factors layer peft BA)))))"

subsection \<open>The casts and the offset, lines 216-268\<close>

definition cast_factors :: "torch \<Rightarrow> lora_linear \<Rightarrow> init_config \<Rightarrow> peft_conf \<Rightarrow> error option \<times> lora_linear" where
  "cast_factors t layer cfg peft =
     (if dora peft then
        (let layer1 = layer\<lparr>lora_A := cast t ''float16'' (lora_A layer),
                            lora_B := cast t ''float16'' (lora_B layer),
                            factor_dtype := ''float16''\<rparr> in
         case lora_magnitude_vector layer of
           None \<Rightarrow> (Some (AttributeError ''lora_magnitude_vector''), layer1)
         | Some mag \<Rightarrow>
             (None, layer1\<lparr>lora_magnitude_vector := Some (map (to_dtype t ''float16'') mag)\<rparr>))
      else
        (case dtype cfg of
           None \<Rightarrow> (None, layer)
         | Some ty \<Rightarrow>
             if ty = ''bf16'' then
               (None, layer\<lparr>lora_A := cast t ''bfloat16'' (lora_A layer),
                            lora_B := cast t ''bfloat16'' (lora_B layer),
                            factor_dtype := ''bfloat16''\<rparr>)
             else if ty = ''fp32'' then
               (None, layer\<lparr>lora_A := cast t ''float32'' (lora_A layer),
                            lora_B := cast t ''float32'' (lora_B layer),
                            factor_dtype := ''float32''\<rparr>)
             else (None, layer)))"

text \<open>
  Lines 250-254: the product of the factors is a tensor of their dtype, and so is its
  multiple by the scaling factor, which line 254 forms in place.
\<close>

definition scaled_offset :: "torch \<Rightarrow> lora_linear \<Rightarrow> error + matrix" where
  "scaled_offset t layer =
     (case matmul (lora_B layer) (lora_A layer) of
        Inl e \<Rightarrow> Inl e
      | Inr P \<Rightarrow>
          Inr (cast t (factor_dtype layer)
                 (smul (scaling layer) (cast t (factor_dtype layer) P))))"

text \<open>
  Lines 257-260: the ratio when the clipping triggers, \<open>None\<close> when it does not. The
  ratio is infinite or NaN when the offset is zero, and then \<^verbatim>\<open>ratio < 1\<close> is false. The
  quotient itself is taken exact.
\<close>

definition clip_ratio :: "matrix \<Rightarrow> matrix \<Rightarrow> error + real option" where
  "clip_ratio W offset =
     (case max_abs W of
        Inl e \<Rightarrow> Inl e
      | Inr w_max \<Rightarrow>
          (case max_abs offset of
             Inl e \<Rightarrow> Inl e
           | Inr o_max \<Rightarrow>
               Inr (if o_max \<noteq> 0 \<and> w_max / o_max < 1 then Some (w_max / o_max) else None)))"

text \<open>
  Lines 265-268: the subtraction in place, whose result is a tensor of the weight's
  dtype; the bare \<^verbatim>\<open>except\<close> stops in the debugger when the shapes do not fit.
\<close>

definition subtract_from_weight :: "torch \<Rightarrow> lora_linear \<Rightarrow> matrix \<Rightarrow> error option \<times> lora_linear" where
  "subtract_from_weight t layer offset =
     (case mat_sub (weight layer) offset of
        Inl e \<Rightarrow> (Some Breakpoint, layer)
      | Inr W \<Rightarrow> (None, layer\<lparr>weight := cast t (weight_dtype layer) W\<rparr>))"

text \<open>Lines 246-268; the products of lines 261-263 are formed in place, in the factors' dtype.\<close>

definition subtract_offset :: "torch \<Rightarrow> lora_linear \<Rightarrow> init_config \<Rightarrow> error option \<times> lora_linear" where
  "subtract_offset t layer cfg =
     (if direction cfg = ''LoRA-One'' then (None, layer)
      else
        (case scaled_offset t layer of
           Inl e \<Rightarrow> (Some e, layer)
         | Inr offset \<Rightarrow>
             if norm_clip cfg = Some True then
               (case clip_ratio (weight layer) offset of
                  Inl e \<Rightarrow> (Some e, layer)
                | Inr (Some ratio) \<Rightarrow>
                    subtract_from_weight t
                      (layer\<lparr>lora_A := cast t (factor_dtype layer) (smul (sqrt ratio) (lora_A layer)),
                             lora_B := cast t (factor_dtype layer) (smul (sqrt ratio) (lora_B layer))\<rparr>)
                      (cast t (factor_dtype layer) (smul ratio offset))
                | Inr None \<Rightarrow> subtract_from_weight t layer offset)
             else subtract_from_weight t layer offset))"

text \<open>The branch of the mode, lines 76-214; no branch runs for any other mode.\<close>

definition reinit_by_mode ::
  "torch \<Rightarrow> string \<Rightarrow> lora_linear \<Rightarrow> init_config \<Rightarrow> peft_conf \<Rightarrow> (string \<rightharpoonup> matrix) option \<Rightarrow>
     error option \<times> lora_linear" where
  "reinit_by_mode t name layer cfg peft named_grads =
     (if mode cfg = ''simple'' then reinit_simple t layer cfg
      else if mode cfg = ''svd'' then reinit_svd t layer cfg
      else if mode cfg = ''gradient'' then reinit_gradient t name layer cfg peft named_grads
      else (None, layer))"

text \<open>\<^verbatim>\<open>reinit_lora_modules\<close>: the branch of the mode, then the casts, then the offset.\<close>

definition reinit_lora_modules ::
  "torch \<Rightarrow> string \<Rightarrow> lora_linear \<Rightarrow> init_config \<Rightarrow> peft_conf \<Rightarrow> (string \<rightharpoonup> matrix) option \<Rightarrow>
     error option \<times> lora_linear" where
  "reinit_lora_modules t name layer cfg peft named_grads =
     (case reinit_by_mode t name layer cfg peft named_grads of
        (Some e, layer1) \<Rightarrow> (Some e, layer1)
      | (None, layer1) \<Rightarrow>
          (case cast_factors t layer1 cfg peft of
             (Some e, layer2) \<Rightarrow> (Some e, layer2)
           | (None, layer2) \<Rightarrow> subtract_offset t layer2 cfg))"


text \<open>
  A deterministic stand-in for the library, for the examples; no value of the examples
  that use it is rounded.
\<close>

definition example_torch :: torch where
  "example_torch =
     \<lparr>init_normal = (\<lambda>W mu sd. map (map (\<lambda>x. mu + sd)) W),
      init_kaiming_uniform = (\<lambda>W a. map (map (\<lambda>x. a)) W),
      init_kaiming_normal = (\<lambda>W md. map (map (\<lambda>x. 1)) W),
      init_xavier_normal = (\<lambda>W. map (map (\<lambda>x. 1)) W),
      init_orthogonal = (\<lambda>W. map (map (\<lambda>x. 1)) W),
      svd_lowrank = (\<lambda>M q niter. ([[1, 2], [3, 4]], [9, 4], [[5, 6], [7, 8]])),
      to_dtype = (\<lambda>ty x. x)\<rparr>"

definition example_layer :: lora_linear where
  "example_layer =
     \<lparr>weight = [[10, 20], [30, 40]], weight_dtype = ''float32'', lora_A = [[0, 0]],
      lora_B = [[0], [0]], factor_dtype = ''float32'', scaling = 2,
      lora_magnitude_vector = None\<rparr>"

definition example_config :: init_config where
  "example_config =
     \<lparr>mode = ''svd'', lora_A_init = ''gaussian'', lora_A_std = 3, lora_B_init = ''zeros'',
      lora_B_std = 1, scale = ''unit'', stable_gamma = 16, direction = ''LoRA-GA'',
      dtype = None, norm_clip = None\<rparr>"

definition example_peft :: peft_conf where
  "example_peft = \<lparr>dora = False, lora_alpha = 16\<rparr>"





section \<open>Properties of the scoped mutation\<close>

lemma map_of_rev_distinct_keys:
  "distinct (map fst xs) \<Longrightarrow> map_of (rev xs) = map_of xs"
proof (induction xs)
  case Nil
  then show ?case by simp
next
  case (Cons a xs)
  obtain k v where a: "a = (k, v)" by (cases a)
  from Cons.prems a have "k \<notin> fst ` set (rev xs)" by simp
  then have none: "map_of (rev xs) k = None" by (simp add: map_of_eq_None_iff)
  show ?case
  proof
    fix x
    show "map_of (rev (a # xs)) x = map_of (a # xs) x"
      using Cons none a by (auto simp: map_add_def split: option.splits)
  qed
qed

lemma original_params_distinct:
  assumes "distinct (map fst model)"
  shows "original_params model adapted_weights name =
           (if adapted_weights name = None then None else map_of model name)"
proof -
  let ?kept = "filter (\<lambda>(name, param). adapted_weights name \<noteq> None) model"
  have d: "distinct (map fst ?kept)"
    using assms by (simp add: distinct_map_filter)
  have "map_of (rev ?kept) name = map_of ?kept name"
    using d by (rule arg_cong [OF map_of_rev_distinct_keys])
  moreover have "map_of ?kept name =
      (if adapted_weights name = None then None else map_of model name)"
    by (induction model) auto
  ultimately show ?thesis by (simp add: original_params_def)
qed

lemma copy_into_same_layout:
  "layout dst = layout src \<Longrightarrow> copy_into convert dst src = Inr src"
  by (cases src) (simp add: copy_into_def)

text \<open>When every tensor to restore has the layout of its snapshot, no copy raises.\<close>

lemma restore_params_exact:
  assumes "\<forall>(name, p) \<in> set model2. \<forall>saved. original name = Some saved \<longrightarrow> layout p = layout saved"
  shows "restore_params convert original model2 =
           (None, map (\<lambda>(name, p). case original name of
                                      None \<Rightarrow> (name, p)
                                    | Some saved \<Rightarrow> (name, saved)) model2)"
  using assms
proof (induction model2)
  case Nil
  then show ?case by simp
next
  case (Cons a model2)
  obtain name p where a: "a = (name, p)" by (cases a)
  have ih: "restore_params convert original model2 =
           (None, map (\<lambda>(name, p). case original name of
                                      None \<Rightarrow> (name, p)
                                    | Some saved \<Rightarrow> (name, saved)) model2)"
    using Cons by simp
  show ?case
  proof (cases "original name")
    case None
    then show ?thesis using a ih by simp
  next
    case (Some saved)
    with Cons.prems a have "layout p = layout saved" by simp
    then have "copy_into convert p saved = Inr saved" by (rule copy_into_same_layout)
    then show ?thesis using a ih Some by simp
  qed
qed

text \<open>
  C1 (restoration invariant), as amended. Parameter names are unique, as in every
  \<^verbatim>\<open>named_parameters()\<close>. Whenever the scope was entered and then left, by a block that
  returned or by a block that raised, and the block left the data of every snapshotted
  parameter with the layout (shape and dtype) it had on entry, as a block does that only
  writes in place, then the \<^verbatim>\<open>finally\<close> clause raises nothing, every parameter of the
  model as the block left it whose name was snapshotted on entry holds exactly its tensor
  from before the scope, and when the block kept the parameter names, looking up any
  snapshotted name gives the same tensor as before the scope. Tensors are compared by
  equality of layout and content, whatever the in-place subtraction and the block
  computed.
\<close>

theorem temporary_weights_restores:
  assumes names: "distinct (map fst model)"
    and run: "temporary_weights isub convert model adapted_weights eta block = (ex, model')"
    and ent: "entered ex"
    and keeps: "\<forall>(name, p) \<in> set (fst (block (snd (apply_adapted isub adapted_weights eta model)))).
                  \<forall>q. adapted_weights name \<noteq> None \<and> map_of model name = Some q \<longrightarrow>
                      layout p = layout q"
  shows "(\<forall>e. ex \<noteq> ExitRaised e) \<and>
         (\<forall>(name, v) \<in> set model'.
            adapted_weights name \<noteq> None \<and> name \<in> fst ` set model \<longrightarrow>
            map_of model name = Some v) \<and>
         (map fst model' = map fst model \<longrightarrow>
            (\<forall>name. adapted_weights name \<noteq> None \<longrightarrow> map_of model' name = map_of model name))"
proof -
  let ?orig = "original_params model adapted_weights"
  let ?put = "\<lambda>(name, p). case ?orig name of None \<Rightarrow> (name, p) | Some saved \<Rightarrow> (name, saved)"
  obtain e1 model1 where ap: "apply_adapted isub adapted_weights eta model = (e1, model1)"
    by (cases "apply_adapted isub adapted_weights eta model")
  obtain model2 r where bl: "block model1 = (model2, r)"
    by (cases "block model1")
  have e1: "e1 = None"
    using run ent ap by (cases e1) (auto simp: temporary_weights_def)
  have "\<forall>(name, p) \<in> set model2. \<forall>saved. ?orig name = Some saved \<longrightarrow> layout p = layout saved"
    using keeps ap bl by (auto simp: original_params_distinct [OF names] split: if_splits)
  then have rs: "restore_params convert ?orig model2 = (None, map ?put model2)"
    by (rule restore_params_exact)
  have final: "model' = map ?put model2" and noexit: "\<forall>e. ex \<noteq> ExitRaised e"
    using run ap bl e1 rs by (cases r; auto simp: temporary_weights_def)+
  have part1: "map_of model name = Some v"
    if mem: "(name, v) \<in> set model'" and a: "adapted_weights name \<noteq> None"
      and n: "name \<in> fst ` set model" for name v
  proof -
    from n obtain saved where s: "map_of model name = Some saved"
      by (metis map_of_eq_None_iff not_Some_eq)
    then have "?orig name = Some saved"
      using a by (simp add: original_params_distinct [OF names])
    with mem final have "v = saved"
      by (auto split: option.splits)
    with s show ?thesis by simp
  qed
  have part2: "map_of model' name = map_of model name"
    if same: "map fst model' = map fst model" and a: "adapted_weights name \<noteq> None" for name
  proof (cases "name \<in> fst ` set model")
    case True
    then have "name \<in> fst ` set model'"
      using same by (metis list.set_map)
    then obtain v where v: "map_of model' name = Some v"
      by (metis map_of_eq_None_iff not_Some_eq)
    then have "(name, v) \<in> set model'" by (rule map_of_SomeD)
    from part1 [OF this a True] v show ?thesis by simp
  next
    case False
    then have "name \<notin> fst ` set model'"
      using same by (metis list.set_map)
    then have "map_of model' name = None" by (simp add: map_of_eq_None_iff)
    moreover from False have "map_of model name = None" by (simp add: map_of_eq_None_iff)
    ultimately show ?thesis by simp
  qed
  show ?thesis using noexit part1 part2 by blast
qed

text \<open>
  The scope at a concrete input: two snapshotted parameters and one that is not, a block
  that overwrites the content of all three in place and then raises.
\<close>

theorem temporary_weights_restores_witness:
  "temporary_weights (\<lambda>eta d p. Inr (map2 (\<lambda>x y. x - eta * y) (content p) d))
       (\<lambda>dst src. Inl RuntimeError)
       [(''w'', Tensor [1::nat] [3::real]), (''b'', Tensor [1] [5]), (''c'', Tensor [1] [7])]
       [''w'' \<mapsto> [1::real], ''b'' \<mapsto> [2]] 10
       (\<lambda>m. (map (\<lambda>(n, p). (n, Tensor (layout p) [0])) m, Inl RuntimeError :: error + unit))
     = (BlockRaised RuntimeError,
        [(''w'', Tensor [1] [3]), (''b'', Tensor [1] [5]), (''c'', Tensor [1] [0])]) \<and>
   map_of [(''w'', Tensor [1::nat] [3::real]), (''b'', Tensor [1] [5]), (''c'', Tensor [1] [0])] ''w''
     = map_of [(''w'', Tensor [1::nat] [3::real]), (''b'', Tensor [1] [5]), (''c'', Tensor [1] [7])] ''w'' \<and>
   map_of [(''w'', Tensor [1::nat] [3::real]), (''b'', Tensor [1] [5]), (''c'', Tensor [1] [0])] ''b''
     = map_of [(''w'', Tensor [1::nat] [3::real]), (''b'', Tensor [1] [5]), (''c'', Tensor [1] [7])] ''b''"
proof -
  let ?isub = "\<lambda>eta d (p :: (nat list, real list) tensor). Inr (map2 (\<lambda>x y. x - eta * y) (content p) d)
                 :: error + real list"
  let ?convert = "\<lambda>(dst :: (nat list, real list) tensor) (src :: (nat list, real list) tensor).
                    Inl RuntimeError :: error + real list"
  let ?model = "[(''w'', Tensor [1::nat] [3::real]), (''b'', Tensor [1] [5]), (''c'', Tensor [1] [7])]"
  let ?aw = "[''w'' \<mapsto> [1::real], ''b'' \<mapsto> [2]]"
  let ?block = "\<lambda>m :: (nat list, real list) named_parameters.
                  (map (\<lambda>(n, p). (n, Tensor (layout p) [0])) m, Inl RuntimeError :: error + unit)"
  have d: "distinct (map fst ?model)" by simp
  have r: "temporary_weights ?isub ?convert ?model ?aw 10 ?block
     = (BlockRaised RuntimeError,
        [(''w'', Tensor [1] [3]), (''b'', Tensor [1] [5]), (''c'', Tensor [1] [0])])"
    by (simp add: temporary_weights_def original_params_def copy_into_def)
  have e: "entered (BlockRaised RuntimeError :: unit scope_exit)" by simp
  have k: "\<forall>(name, p) \<in> set (fst (?block (snd (apply_adapted ?isub ?aw 10 ?model)))).
                  \<forall>q. ?aw name \<noteq> None \<and> map_of ?model name = Some q \<longrightarrow> layout p = layout q"
    by simp
  from temporary_weights_restores [OF d r e k] r show ?thesis by simp
qed

text \<open>
  The claim as stated fails for a block that puts a tensor of another shape in the place
  of a parameter's data: the copy of line 308 broadcasts the snapshot of shape [2] into
  the tensor of shape [3, 2] that it finds, and the parameter is not the one from before
  the scope.
\<close>

theorem temporary_weights_reshaping_block:
  "temporary_weights (\<lambda>eta d p. Inr (map2 (\<lambda>x y. x - eta * y) (content p) d))
       (\<lambda>dst src. Inr (concat (replicate (hd (layout dst)) (content src))))
       [(''w'', Tensor [2::nat] [3::real, 5])]
       [''w'' \<mapsto> [1::real, 1]] 10
       (\<lambda>m. ([(''w'', Tensor [3, 2] [0, 0, 0, 0, 0, 0])], Inr ()))
     = (BlockReturned (), [(''w'', Tensor [3, 2] [3, 5, 3, 5, 3, 5])]) \<and>
   Tensor [3::nat, 2] [3::real, 5, 3, 5, 3, 5] \<noteq> Tensor [2] [3, 5]"
  by (simp add: temporary_weights_def original_params_def copy_into_def eval_nat_numeral)

section \<open>Properties of the grid search\<close>

lemma flt_irrefl: "\<not> flt x x"
  by (cases x) auto

lemma flt_trans: "flt x y \<Longrightarrow> flt y z \<Longrightarrow> flt x z"
  by (cases x; cases y; cases z) auto

lemma flt_asym: "flt x y \<Longrightarrow> \<not> flt y x"
  by (cases x; cases y) auto

subsection \<open>The loop computes the mean of the batch losses\<close>

text \<open>The sum of floats, whatever the order: the cases of \<open>arithmetic_mean\<close> before the division.\<close>

lemma fadd_cases:
  "fadd a x =
     (if a = NaN \<or> x = NaN \<or> (a = PosInf \<and> x = NegInf) \<or> (a = NegInf \<and> x = PosInf) then NaN
      else if a = PosInf \<or> x = PosInf then PosInf
      else if a = NegInf \<or> x = NegInf then NegInf
      else Finite (finite_value a + finite_value x))"
  by (cases a; cases x) simp_all

lemma foldl_fadd:
  "foldl fadd a ls =
     (if NaN \<in> set (a # ls) \<or> (PosInf \<in> set (a # ls) \<and> NegInf \<in> set (a # ls)) then NaN
      else if PosInf \<in> set (a # ls) then PosInf
      else if NegInf \<in> set (a # ls) then NegInf
      else Finite (finite_value a + sum_list (map finite_value ls)))"
proof (induction ls arbitrary: a)
  case Nil
  then show ?case by (cases a) simp_all
next
  case (Cons x ls)
  show ?case
    unfolding foldl_Cons Cons.IH [of "fadd a x"]
    by (cases a; cases x) (auto simp: algebra_simps)
qed

lemma compute_loss_Inr:
  "compute_loss forward model batches num loss = Inr (num', loss') \<longleftrightarrow>
     (\<exists>ls. map (forward model) batches = map Inr ls \<and> num' = num + length ls \<and>
           loss' = foldl fadd loss ls)"
proof (induction batches arbitrary: num loss)
  case Nil
  then show ?case by auto
next
  case (Cons b batches)
  show ?case
  proof (cases "forward model b")
    case (Inl e)
    then show ?thesis by (auto simp: map_eq_Cons_conv)
  next
    case (Inr l)
    have "(\<exists>ls. map (forward model) (b # batches) = map Inr ls \<and> num' = num + length ls \<and>
              loss' = foldl fadd loss ls) \<longleftrightarrow>
          (\<exists>ls. map (forward model) batches = map Inr ls \<and> num' = (num + 1) + length ls \<and>
              loss' = foldl fadd (fadd loss l) ls)"
      (is "?lhs \<longleftrightarrow> ?rhs")
    proof
      assume ?lhs
      then obtain ls where ls: "map (forward model) (b # batches) = map Inr ls"
        "num' = num + length ls" "loss' = foldl fadd loss ls" by blast
      from ls(1) Inr obtain ls' where "ls = l # ls'" "map (forward model) batches = map Inr ls'"
        by (cases ls) auto
      with ls show ?rhs by auto
    next
      assume ?rhs
      then obtain ls where ls: "map (forward model) batches = map Inr ls"
        "num' = (num + 1) + length ls" "loss' = foldl fadd (fadd loss l) ls" by blast
      then have "map (forward model) (b # batches) = map Inr (l # ls) \<and>
          num' = num + length (l # ls) \<and> loss' = foldl fadd loss (l # ls)"
        using Inr by simp
      then show ?lhs by blast
    qed
    then show ?thesis using Inr Cons.IH [of "num + 1" "fadd loss l"] by simp
  qed
qed

text \<open>
  The loop of lines 324-335 returns a loss exactly when every batch gave one and there
  was a batch, and the loss is then the arithmetic mean of the batch losses.
\<close>

lemma mean_loss_is_mean:
  "mean_loss forward model dataloader = Inr l \<longleftrightarrow>
     (\<exists>ls. map (forward model) dataloader = map Inr ls \<and> ls \<noteq> [] \<and> l = arithmetic_mean ls)"
proof -
  have div: "fdiv_count (foldl fadd (Finite 0) ls) (length ls) = arithmetic_mean ls" for ls
    by (simp add: foldl_fadd arithmetic_mean_def)
  show ?thesis
  proof
    assume m: "mean_loss forward model dataloader = Inr l"
    then obtain num loss where c: "compute_loss forward model dataloader 0 (Finite 0) = Inr (num, loss)"
      and n: "num \<noteq> 0" and l: "l = fdiv_count loss num"
      by (auto simp: mean_loss_def split: sum.splits if_splits)
    from c obtain ls where ls: "map (forward model) dataloader = map Inr ls" "num = length ls"
      "loss = foldl fadd (Finite 0) ls"
      by (auto simp: compute_loss_Inr)
    with n l div [of ls] have "ls \<noteq> [] \<and> l = arithmetic_mean ls" by auto
    with ls(1) show "\<exists>ls. map (forward model) dataloader = map Inr ls \<and> ls \<noteq> [] \<and> l = arithmetic_mean ls"
      by blast
  next
    assume "\<exists>ls. map (forward model) dataloader = map Inr ls \<and> ls \<noteq> [] \<and> l = arithmetic_mean ls"
    then obtain ls where ls: "map (forward model) dataloader = map Inr ls" "ls \<noteq> []"
      "l = arithmetic_mean ls" by blast
    then have "compute_loss forward model dataloader 0 (Finite 0)
        = Inr (length ls, foldl fadd (Finite 0) ls)"
      by (simp add: compute_loss_Inr)
    with ls div [of ls] show "mean_loss forward model dataloader = Inr l"
      by (simp add: mean_loss_def)
  qed
qed

subsection \<open>Every candidate starts from the same parameters\<close>

lemma restore_apply_adapted:
  assumes "\<forall>(n, v) \<in> set model. adapted_weights n \<noteq> None \<longrightarrow> original n = Some v"
    and "\<forall>n. adapted_weights n = None \<longrightarrow> original n = None"
    and "apply_adapted isub adapted_weights eta model = (None, model1)"
  shows "restore_params convert original model1 = (None, model)"
  using assms
proof (induction model arbitrary: model1)
  case Nil
  then show ?case by simp
next
  case (Cons a model)
  obtain name param where a: "a = (name, param)" by (cases a)
  obtain e rest' where r: "apply_adapted isub adapted_weights eta model = (e, rest')"
    by (cases "apply_adapted isub adapted_weights eta model")
  show ?case
  proof (cases "adapted_weights name")
    case None
    with Cons.prems a r have e: "e = None" and m1: "model1 = (name, param) # rest'"
      by auto
    from Cons.IH [of rest'] Cons.prems r e
    have "restore_params convert original rest' = (None, model)"
      by auto
    with m1 None Cons.prems(2) a show ?thesis
      by simp
  next
    case (Some delta)
    with Cons.prems a r obtain c where p: "isub eta delta param = Inr c"
      and e: "e = None" and m1: "model1 = (name, Tensor (layout param) c) # rest'"
      by (auto split: sum.splits)
    from Cons.IH [of rest'] Cons.prems r e
    have "restore_params convert original rest' = (None, model)"
      by auto
    moreover from Cons.prems(1) a Some have "original name = Some param" by auto
    moreover have "copy_into convert (Tensor (layout param) c) param = Inr param"
      by (rule copy_into_same_layout) simp
    ultimately show ?thesis using m1 a
      by simp
  qed
qed

lemma temporary_weights_identity_block:
  assumes names: "distinct (map fst model)"
    and blk: "\<And>m. fst (block m) = m"
    and run: "temporary_weights isub convert model adapted_weights eta block = (ex, model')"
    and ent: "entered ex"
  shows "model' = model \<and> (\<forall>e. ex \<noteq> ExitRaised e)"
proof -
  let ?orig = "original_params model adapted_weights"
  obtain e1 model1 where ap: "apply_adapted isub adapted_weights eta model = (e1, model1)"
    by (cases "apply_adapted isub adapted_weights eta model")
  have e1: "e1 = None"
    using run ent ap by (cases e1) (auto simp: temporary_weights_def)
  obtain r where bl: "block model1 = (model1, r)"
    using blk [of model1] by (cases "block model1") auto
  have "\<forall>(n, v) \<in> set model. adapted_weights n \<noteq> None \<longrightarrow> ?orig n = Some v"
    using names by (auto simp: original_params_distinct)
  moreover have "\<forall>n. adapted_weights n = None \<longrightarrow> ?orig n = None"
    using names by (simp add: original_params_distinct)
  ultimately have "restore_params convert ?orig model1 = (None, model)"
    using ap e1 by (intro restore_apply_adapted) auto
  then show ?thesis
    using run ap bl e1 by (cases r) (auto simp: temporary_weights_def)
qed

lemma temporary_weights_in_place:
  assumes names: "distinct (map fst model)"
    and ap: "apply_adapted isub adapted_weights eta model = (None, model1)"
    and bl: "block model1 = (model1, r)"
  shows "temporary_weights isub convert model adapted_weights eta block =
           (case r of Inl e \<Rightarrow> BlockRaised e | Inr v \<Rightarrow> BlockReturned v, model)"
proof -
  let ?orig = "original_params model adapted_weights"
  have "\<forall>(n, v) \<in> set model. adapted_weights n \<noteq> None \<longrightarrow> ?orig n = Some v"
    using names by (auto simp: original_params_distinct)
  moreover have "\<forall>n. adapted_weights n = None \<longrightarrow> ?orig n = None"
    using names by (simp add: original_params_distinct)
  ultimately have "restore_params convert ?orig model1 = (None, model)"
    using ap by (intro restore_apply_adapted) auto
  then show ?thesis
    using ap bl by (cases r) (simp_all add: temporary_weights_def)
qed

subsection \<open>The selection\<close>

lemma select_best_char:
  "(select_best L es st = st \<and> (\<forall>e\<in>set es. \<not> flt (L e) (fst st))) \<or>
   (\<exists>pre e post. es = pre @ e # post \<and> select_best L es st = (L e, Some e) \<and>
      flt (L e) (fst st) \<and>
      (\<forall>x\<in>set pre. \<not> flt (L x) (L e) \<and> L x \<noteq> L e) \<and>
      (\<forall>x\<in>set post. \<not> flt (L x) (L e)))"
proof (induction es arbitrary: st)
  case Nil
  then show ?case by simp
next
  case (Cons x es)
  show ?case
  proof (cases "flt (L x) (fst st)")
    case True
    from Cons.IH [of "(L x, Some x)"] show ?thesis
    proof (elim disjE conjE exE)
      assume "select_best L es (L x, Some x) = (L x, Some x)"
        and "\<forall>e\<in>set es. \<not> flt (L e) (fst (L x, Some x))"
      then have "x # es = [] @ x # es \<and> select_best L (x # es) st = (L x, Some x) \<and>
          flt (L x) (fst st) \<and> (\<forall>y\<in>set []. \<not> flt (L y) (L x) \<and> L y \<noteq> L x) \<and>
          (\<forall>y\<in>set es. \<not> flt (L y) (L x))"
        using True by simp
      then show ?thesis by blast
    next
      fix pre e post
      assume es: "es = pre @ e # post"
        and sel: "select_best L es (L x, Some x) = (L e, Some e)"
        and lt: "flt (L e) (fst (L x, Some x))"
        and pre: "\<forall>y\<in>set pre. \<not> flt (L y) (L e) \<and> L y \<noteq> L e"
        and post: "\<forall>y\<in>set post. \<not> flt (L y) (L e)"
      from lt have ltx: "flt (L e) (L x)" by simp
      then have "\<not> flt (L x) (L e)" "L x \<noteq> L e"
        using flt_asym flt_irrefl by (blast, metis)
      moreover have "flt (L e) (fst st)" using ltx True by (rule flt_trans)
      ultimately have "x # es = (x # pre) @ e # post \<and>
          select_best L (x # es) st = (L e, Some e) \<and> flt (L e) (fst st) \<and>
          (\<forall>y\<in>set (x # pre). \<not> flt (L y) (L e) \<and> L y \<noteq> L e) \<and>
          (\<forall>y\<in>set post. \<not> flt (L y) (L e))"
        using es sel pre post True by simp
      then show ?thesis by blast
    qed
  next
    case False
    from Cons.IH [of st] show ?thesis
    proof (elim disjE conjE exE)
      assume "select_best L es st = st" and "\<forall>e\<in>set es. \<not> flt (L e) (fst st)"
      then show ?thesis using False by simp
    next
      fix pre e post
      assume es: "es = pre @ e # post"
        and sel: "select_best L es st = (L e, Some e)"
        and lt: "flt (L e) (fst st)"
        and pre: "\<forall>y\<in>set pre. \<not> flt (L y) (L e) \<and> L y \<noteq> L e"
        and post: "\<forall>y\<in>set post. \<not> flt (L y) (L e)"
      have "\<not> flt (L x) (L e)"
        using False lt flt_trans by blast
      moreover have "L x \<noteq> L e" using False lt by auto
      ultimately have "x # es = (x # pre) @ e # post \<and>
          select_best L (x # es) st = (L e, Some e) \<and> flt (L e) (fst st) \<and>
          (\<forall>y\<in>set (x # pre). \<not> flt (L y) (L e) \<and> L y \<noteq> L e) \<and>
          (\<forall>y\<in>set post. \<not> flt (L y) (L e))"
        using es sel pre post lt False by simp
      then show ?thesis by blast
    qed
  qed
qed

lemma search_loop_char:
  assumes names: "distinct (map fst model)"
    and run: "search_loop isub convert forward dataloader named_grad etas st model = (Inr best, model')"
  shows "model' = model \<and>
         (\<forall>e\<in>set etas. \<exists>l. candidate_loss isub forward model dataloader named_grad e = Inr l) \<and>
         best = snd (select_best
                  (\<lambda>e. loss_of (candidate_loss isub forward model dataloader named_grad e))
                  etas st)"
  using run
proof (induction etas arbitrary: st)
  case Nil
  then show ?case by simp
next
  case (Cons eta etas)
  let ?L = "\<lambda>e. loss_of (candidate_loss isub forward model dataloader named_grad e)"
  obtain ex m1 where tw: "temporary_weights isub convert model named_grad eta
      (eval_candidate forward dataloader eta st) = (ex, m1)"
    by (cases "temporary_weights isub convert model named_grad eta
      (eval_candidate forward dataloader eta st)")
  from Cons.prems tw obtain st' where ex: "ex = BlockReturned st'"
    and rest: "search_loop isub convert forward dataloader named_grad etas st' m1 = (Inr best, model')"
    by (cases ex) auto
  have "fst (eval_candidate forward dataloader eta st m) = m" for m
    by (simp add: eval_candidate_def)
  from temporary_weights_identity_block [OF names this tw] ex have m1: "m1 = model"
    by simp
  obtain e1 model1 where ap: "apply_adapted isub named_grad eta model = (e1, model1)"
    by (cases "apply_adapted isub named_grad eta model")
  from tw ex ap have e1: "e1 = None"
    by (cases e1) (auto simp: temporary_weights_def)
  have "eval_candidate forward dataloader eta st model1 =
      (model1, case mean_loss forward model1 dataloader of
                 Inl e \<Rightarrow> Inl e
               | Inr loss \<Rightarrow> Inr (if flt loss (fst st) then (loss, Some eta) else st))"
    by (simp add: eval_candidate_def)
  from temporary_weights_in_place [where block = "eval_candidate forward dataloader eta st"
      and convert = convert, OF names ap [unfolded e1] this] tw ex
  obtain l where ml: "mean_loss forward model1 dataloader = Inr l"
    and st': "st' = (if flt l (fst st) then (l, Some eta) else st)"
    by (auto split: sum.splits)
  have cl: "candidate_loss isub forward model dataloader named_grad eta = Inr l"
    using ap e1 ml by (simp add: candidate_loss_def)
  then have L: "?L eta = l" by (simp add: loss_of_def)
  from Cons.IH [of st'] rest m1
  have ih: "model' = model"
    "\<forall>e\<in>set etas. \<exists>l. candidate_loss isub forward model dataloader named_grad e = Inr l"
    "best = snd (select_best ?L etas st')"
    by auto
  have "select_best ?L (eta # etas) st = select_best ?L etas st'"
    using L st' by simp
  with ih cl show ?case by auto
qed

lemma search_loop_total:
  assumes names: "distinct (map fst model)"
    and ok: "\<forall>e\<in>set etas. \<exists>l. candidate_loss isub forward model dataloader named_grad e = Inr l"
  shows "search_loop isub convert forward dataloader named_grad etas st model =
           (Inr (snd (select_best
                  (\<lambda>e. loss_of (candidate_loss isub forward model dataloader named_grad e))
                  etas st)), model)"
  using ok
proof (induction etas arbitrary: st)
  case Nil
  then show ?case by simp
next
  case (Cons eta etas)
  let ?L = "\<lambda>e. loss_of (candidate_loss isub forward model dataloader named_grad e)"
  from Cons.prems obtain l where cl: "candidate_loss isub forward model dataloader named_grad eta = Inr l"
    by auto
  obtain e1 model1 where ap: "apply_adapted isub named_grad eta model = (e1, model1)"
    by (cases "apply_adapted isub named_grad eta model")
  from cl ap have e1: "e1 = None" and ml: "mean_loss forward model1 dataloader = Inr l"
    by (cases e1; simp add: candidate_loss_def)+
  let ?st' = "if flt l (fst st) then (l, Some eta) else st"
  have "eval_candidate forward dataloader eta st model1 = (model1, Inr ?st')"
    using ml by (simp add: eval_candidate_def)
  from temporary_weights_in_place [where block = "eval_candidate forward dataloader eta st"
      and convert = convert, OF names ap [unfolded e1] this]
  have tw: "temporary_weights isub convert model named_grad eta
      (eval_candidate forward dataloader eta st) = (BlockReturned ?st', model)"
    by simp
  have L: "?L eta = l" using cl by (simp add: loss_of_def)
  have "search_loop isub convert forward dataloader named_grad (eta # etas) st model =
        search_loop isub convert forward dataloader named_grad etas ?st' model"
    using tw by simp
  also have "\<dots> = (Inr (snd (select_best ?L etas ?st')), model)"
    using Cons.IH [of ?st'] Cons.prems by simp
  also have "select_best ?L etas ?st' = select_best ?L (eta # etas) st"
    using L by simp
  finally show ?case .
qed

lemma eta_list_descending: "sorted_wrt (\<lambda>a b. a > b) eta_list"
  by (simp add: eta_list_def)

text \<open>
  C5 (the grid search returns the minimiser, the first one among ties). The candidates are
  the eleven values of line 314, in descending order. Whenever \<^verbatim>\<open>search_eta\<close> returns,
  the parameters are back at their values; for every candidate the in-place update and
  every batch went through, there was a batch, and the candidate's loss is the
  arithmetic mean of the losses of the batches, taken on the parameters with eta times
  the gradient subtracted; and a returned eta is a candidate such that no candidate's
  mean loss compares below its own and every candidate with the same mean loss is no
  larger, that is, comes no earlier in the list. An eta is returned as soon as one
  candidate's mean loss compares below infinity.
\<close>

theorem search_eta_selects_minimum:
  assumes names: "distinct (map fst model)"
    and run: "search_eta isub convert forward model dataloader (Some named_grad) = (Inr best, model')"
  shows "eta_list = [10, 5, 1, 0.5, 0.1, 0.05, 0.01, 0.005, 0.001, 0.0005, 0.0001] \<and>
         model' = model \<and>
         (\<forall>e\<in>set eta_list. \<exists>model1 ls.
            apply_adapted isub named_grad e model = (None, model1) \<and>
            map (forward model1) dataloader = map Inr ls \<and> ls \<noteq> [] \<and>
            candidate_loss isub forward model dataloader named_grad e = Inr (arithmetic_mean ls)) \<and>
         (\<forall>e. best = Some e \<longrightarrow>
            e \<in> set eta_list \<and>
            (\<exists>l. candidate_loss isub forward model dataloader named_grad e = Inr l \<and>
               (\<forall>e'\<in>set eta_list. \<forall>l'.
                  candidate_loss isub forward model dataloader named_grad e' = Inr l' \<longrightarrow>
                  \<not> flt l' l \<and> (l' = l \<longrightarrow> e' \<le> e)))) \<and>
         ((\<exists>e\<in>set eta_list. \<exists>l.
              candidate_loss isub forward model dataloader named_grad e = Inr l \<and> flt l PosInf) \<longrightarrow>
            best \<noteq> None)"
proof -
  let ?C = "candidate_loss isub forward model dataloader named_grad"
  let ?L = "\<lambda>e. loss_of (?C e)"
  from run have loop: "search_loop isub convert forward dataloader named_grad eta_list (PosInf, None) model
      = (Inr best, model')"
    by (simp add: search_eta_def)
  from search_loop_char [OF names loop]
  have m: "model' = model" and ok: "\<forall>e\<in>set eta_list. \<exists>l. ?C e = Inr l"
    and best: "best = snd (select_best ?L eta_list (PosInf, None))"
    by auto
  have list: "eta_list = [10, 5, 1, 0.5, 0.1, 0.05, 0.01, 0.005, 0.001, 0.0005, 0.0001]"
    by (simp add: eta_list_def)
  note char = select_best_char [of ?L eta_list "(PosInf, None)"]
  have sel: "e \<in> set eta_list \<and>
            (\<exists>l. ?C e = Inr l \<and>
               (\<forall>e'\<in>set eta_list. \<forall>l'. ?C e' = Inr l' \<longrightarrow> \<not> flt l' l \<and> (l' = l \<longrightarrow> e' \<le> e)))"
    if b: "best = Some e" for e
  proof -
    from char b best obtain pre e0 post where split: "eta_list = pre @ e0 # post"
      and sb: "select_best ?L eta_list (PosInf, None) = (?L e0, Some e0)"
      and pre: "\<forall>x\<in>set pre. \<not> flt (?L x) (?L e0) \<and> ?L x \<noteq> ?L e0"
      and post: "\<forall>x\<in>set post. \<not> flt (?L x) (?L e0)"
      by auto
    from sb b best have e0: "e0 = e" by simp
    have split': "eta_list = pre @ e # post" using split e0 by simp
    have set_eq: "set eta_list = set pre \<union> {e} \<union> set post"
      by (subst split') auto
    have mem: "e \<in> set eta_list" by (subst set_eq) simp
    with ok obtain l where l: "?C e = Inr l" by blast
    have "sorted_wrt (\<lambda>a b. a > b) (pre @ e # post)"
      using eta_list_descending by (simp only: split')
    then have ord: "\<forall>x\<in>set pre. x > e" "\<forall>x\<in>set post. e > x"
      by (auto simp: sorted_wrt_append)
    have "\<not> flt l' l \<and> (l' = l \<longrightarrow> e' \<le> e)"
      if e': "e' \<in> set eta_list" and l': "?C e' = Inr l'" for e' l'
    proof -
      have Le: "?L e = l" "?L e' = l'" using l l' by (simp_all add: loss_of_def)
      from e' set_eq consider "e' \<in> set pre" | "e' = e" | "e' \<in> set post" by auto
      then show ?thesis
      proof cases
        case 1
        with pre e0 Le show ?thesis by auto
      next
        case 2
        with Le flt_irrefl show ?thesis by auto
      next
        case 3
        with post ord e0 Le show ?thesis by auto
      qed
    qed
    with mem l show ?thesis by blast
  qed
  have some: "best \<noteq> None" if "\<exists>e\<in>set eta_list. \<exists>l. ?C e = Inr l \<and> flt l PosInf"
  proof -
    from that obtain e l where e: "e \<in> set eta_list" "?C e = Inr l" "flt l PosInf" by blast
    then have "flt (?L e) (fst (PosInf, None :: real option))"
      by (simp add: loss_of_def)
    with e(1) have "\<exists>e\<in>set eta_list. flt (?L e) (fst (PosInf, None :: real option))"
      by blast
    with char best show ?thesis by auto
  qed
  have mean: "\<exists>model1 ls. apply_adapted isub named_grad e model = (None, model1) \<and>
            map (forward model1) dataloader = map Inr ls \<and> ls \<noteq> [] \<and>
            ?C e = Inr (arithmetic_mean ls)"
    if e: "e \<in> set eta_list" for e
  proof -
    from ok e obtain l where l: "?C e = Inr l" by blast
    obtain e1 model1 where ap: "apply_adapted isub named_grad e model = (e1, model1)"
      by (cases "apply_adapted isub named_grad e model")
    from l ap have e1: "e1 = None" and ml: "mean_loss forward model1 dataloader = Inr l"
      by (cases e1; simp add: candidate_loss_def)+
    from ml obtain ls where "map (forward model1) dataloader = map Inr ls" "ls \<noteq> []"
      "l = arithmetic_mean ls"
      by (auto simp: mean_loss_is_mean)
    with ap e1 l show ?thesis by blast
  qed
  from list m mean sel some show ?thesis by blast
qed

text \<open>
  C10 (the search can return \<^verbatim>\<open>None\<close>). When the mean loss of every candidate is NaN, no
  comparison of line 338 succeeds and \<^verbatim>\<open>search_eta\<close> returns \<^verbatim>\<open>None\<close>, which is none of
  the eleven candidates.
\<close>

theorem search_eta_all_nan_returns_None:
  assumes names: "distinct (map fst model)"
    and nan: "\<forall>e\<in>set eta_list. candidate_loss isub forward model dataloader named_grad e = Inr NaN"
  shows "search_eta isub convert forward model dataloader (Some named_grad) = (Inr None, model)"
proof -
  let ?L = "\<lambda>e. loss_of (candidate_loss isub forward model dataloader named_grad e)"
  have keep: "select_best ?L es st = st" if "set es \<subseteq> set eta_list" for es st
    using that
  proof (induction es arbitrary: st)
    case Nil
    then show ?case by simp
  next
    case (Cons e es)
    then have "?L e = NaN" using nan by (simp add: loss_of_def)
    with Cons show ?case by simp
  qed
  have "\<forall>e\<in>set eta_list. \<exists>l. candidate_loss isub forward model dataloader named_grad e = Inr l"
    using nan by simp
  from search_loop_total [where st = "(PosInf, None)" and convert = convert, OF names this] keep [of eta_list "(PosInf, None)"]
  show ?thesis by (simp add: search_eta_def)
qed

text \<open>
  A loss that is quadratic in the parameter, plus the number of the batch, on two
  batches: the mean has its minimum at eta = 1.
\<close>

theorem search_eta_selects_minimum_witness:
  "search_eta (\<lambda>eta d p. Inr (content p - eta * d)) (\<lambda>dst src. Inl RuntimeError)
       (\<lambda>m b. Inr (Finite ((content (snd (hd m)) + 1)\<^sup>2 + b)))
       [(''w'', Tensor () (0::real))] [0, 2] (Some [''w'' \<mapsto> (1::real)])
     = (Inr (Some 1), [(''w'', Tensor () 0)]) \<and>
   (1::real) \<in> set eta_list \<and>
   candidate_loss (\<lambda>eta d p. Inr (content p - eta * d))
       (\<lambda>m b. Inr (Finite ((content (snd (hd m)) + 1)\<^sup>2 + b)))
       [(''w'', Tensor () (0::real))] [0, 2] [''w'' \<mapsto> (1::real)] (1/2)
     = Inr (arithmetic_mean [Finite (1/4), Finite (9/4)]) \<and>
   \<not> flt (Finite (5/4)) (Finite 1)"
proof -
  let ?isub = "\<lambda>eta d (p :: (unit, real) tensor). Inr (content p - eta * d) :: error + real"
  let ?convert = "\<lambda>(dst :: (unit, real) tensor) (src :: (unit, real) tensor).
                    Inl RuntimeError :: error + real"
  let ?forward = "\<lambda>(m :: (unit, real) named_parameters) b.
                    Inr (Finite ((content (snd (hd m)) + 1)\<^sup>2 + b)) :: error + pyfloat"
  let ?model = "[(''w'', Tensor () (0::real))]"
  have d: "distinct (map fst ?model)" by simp
  have r: "search_eta ?isub ?convert ?forward ?model [0, 2] (Some [''w'' \<mapsto> (1::real)])
     = (Inr (Some 1), [(''w'', Tensor () 0)])"
    by (simp add: search_eta_def eta_list_def temporary_weights_def original_params_def
      copy_into_def eval_candidate_def mean_loss_def power2_eq_square)
  have c: "candidate_loss ?isub ?forward ?model [0, 2] [''w'' \<mapsto> (1::real)] (1/2)
     = Inr (arithmetic_mean [Finite (1/4), Finite (9/4)])"
    by (simp add: candidate_loss_def mean_loss_def arithmetic_mean_def power2_eq_square)
  have h: "(1::real) \<in> set eta_list" by (simp add: eta_list_def)
  from search_eta_selects_minimum [OF d r] c h r show ?thesis by simp
qed

text \<open>A forward pass whose loss is NaN on every batch.\<close>

theorem search_eta_all_nan_returns_None_witness:
  "distinct (map fst [(''w'', Tensor () (0::real))]) \<and>
   search_eta (\<lambda>eta d p. Inr (content p - eta * d)) (\<lambda>dst src. Inl RuntimeError)
       (\<lambda>m b. Inr NaN)
       [(''w'', Tensor () (0::real))] [()] (Some [''w'' \<mapsto> (1::real)])
     = (Inr None, [(''w'', Tensor () 0)])"
proof -
  let ?isub = "\<lambda>eta d (p :: (unit, real) tensor). Inr (content p - eta * d) :: error + real"
  have d: "distinct (map fst [(''w'', Tensor () (0::real))])" by simp
  have n: "\<forall>e\<in>set eta_list. candidate_loss ?isub (\<lambda>m b. Inr NaN)
       [(''w'', Tensor () (0::real))] [()] [''w'' \<mapsto> (1::real)] e = Inr NaN"
    by (simp add: candidate_loss_def mean_loss_def)
  from search_eta_all_nan_returns_None [OF d n] d show ?thesis by simp
qed

section \<open>Properties of the gradient estimate\<close>

lemma hook_merged: "merged add n (record_gradient_hook add ps st) = merged add n st"
proof (induction ps arbitrary: st)
  case Nil
  then show ?case by (cases st) simp
next
  case (Cons p ps)
  obtain m rg where p: "p = (m, rg)" by (cases p)
  obtain gr rd where st: "st = (gr, rd)" by (cases st)
  show ?case
  proof (cases "gr m")
    case None
    then show ?thesis using Cons p st by simp
  next
    case (Some g)
    show ?thesis
    proof (cases rg)
      case True
      have "merged add n (gr(m := None), accumulate add rd m g) = merged add n (gr, rd)"
        using Some by (auto simp: merged_def accumulate_def acc_def split: option.splits)
      then show ?thesis using Cons p st Some True by simp
    next
      case False
      then show ?thesis using Cons p st Some by simp
    qed
  qed
qed

lemma hook_keeps_None: "fst st n = None \<Longrightarrow> fst (record_gradient_hook add ps st) n = None"
proof (induction ps arbitrary: st)
  case Nil
  then show ?case by (cases st) simp
next
  case (Cons p ps)
  obtain m rg where p: "p = (m, rg)" by (cases p)
  obtain gr rd where st: "st = (gr, rd)" by (cases st)
  show ?case using Cons p st by (auto split: option.splits)
qed

lemma hook_clears:
  "(n, True) \<in> set ps \<Longrightarrow> fst (record_gradient_hook add ps st) n = None"
proof (induction ps arbitrary: st)
  case Nil
  then show ?case by simp
next
  case (Cons p ps)
  obtain m rg where p: "p = (m, rg)" by (cases p)
  obtain gr rd where st: "st = (gr, rd)" by (cases st)
  show ?case
  proof (cases "p = (n, True)")
    case True
    then show ?thesis using p st by (auto split: option.splits intro: hook_keeps_None)
  next
    case False
    with Cons.prems have "(n, True) \<in> set ps" by auto
    then show ?thesis using Cons.IH p st by (auto split: option.splits)
  qed
qed

lemma hook_outside: "n \<notin> fst ` set ps \<Longrightarrow> snd (record_gradient_hook add ps st) n = snd st n"
proof (induction ps arbitrary: st)
  case Nil
  then show ?case by (cases st) simp
next
  case (Cons p ps)
  obtain m rg where p: "p = (m, rg)" by (cases p)
  obtain gr rd where st: "st = (gr, rd)" by (cases st)
  show ?case using Cons p st by (auto simp: accumulate_def split: option.splits)
qed

lemma backward_pass_merged:
  assumes rg: "\<forall>(m, rg) \<in> set ps. rg" and n: "n \<in> fst ` set ps"
  shows "merged add n (backward_pass add ps ds st) =
           foldl (acc add) (merged add n st) (map snd (filter (\<lambda>(m, g). m = n) ds))"
proof (induction ds arbitrary: st)
  case Nil
  then show ?case by simp
next
  case (Cons d ds)
  obtain m g where d: "d = (m, g)" by (cases d)
  let ?st1 = "if m \<in> fst ` set ps then record_gradient_hook add ps st else st"
  obtain gr rd where st1: "?st1 = (gr, rd)" by (cases ?st1)
  have m1: "merged add n ?st1 = merged add n st" by (simp add: hook_merged)
  have step: "backward_pass add ps (d # ds) st = backward_pass add ps ds (accumulate add gr m g, rd)"
    using d st1 by simp
  show ?case
  proof (cases "m = n")
    case True
    from n rg have "(n, True) \<in> set ps" by auto
    then have "fst ?st1 n = None" using True n by (simp add: hook_clears)
    then have grn: "gr n = None" using st1 by simp
    then have "merged add n (accumulate add gr m g, rd) = acc add (merged add n ?st1) g"
      using True st1 by (simp add: merged_def accumulate_def acc_def)
    then show ?thesis using Cons.IH [of "(accumulate add gr m g, rd)"] step m1 d True by simp
  next
    case False
    then have "merged add n (accumulate add gr m g, rd) = merged add n ?st1"
      using st1 by (auto simp: merged_def accumulate_def split: option.splits)
    then show ?thesis using Cons.IH [of "(accumulate add gr m g, rd)"] step m1 d False by simp
  qed
qed

lemma backward_pass_outside:
  "n \<notin> fst ` set ps \<Longrightarrow> snd (backward_pass add ps ds st) n = snd st n"
proof (induction ds arbitrary: st)
  case Nil
  then show ?case by simp
next
  case (Cons d ds)
  obtain m g where d: "d = (m, g)" by (cases d)
  let ?st1 = "if m \<in> fst ` set ps then record_gradient_hook add ps st else st"
  obtain gr rd where st1: "?st1 = (gr, rd)" by (cases ?st1)
  have "snd ?st1 n = snd st n" using Cons.prems by (simp add: hook_outside)
  then have "rd n = snd st n" using st1 by simp
  moreover have "backward_pass add ps (d # ds) st = backward_pass add ps ds (accumulate add gr m g, rd)"
    using d st1 by simp
  ultimately show ?case using Cons.IH [of "(accumulate add gr m g, rd)"] Cons.prems by simp
qed

lemma clear_grads_apply:
  "clear_grads ps gr n = (if n \<in> fst ` set ps then None else gr n)"
  unfolding clear_grads_def
  by (induction ps arbitrary: gr) (auto split: prod.splits)

lemma estimate_batches_result:
  assumes rg: "\<forall>(m, rg) \<in> set ps. rg"
    and run: "estimate_batches add fb ps batches num st = (None, num', st')"
    and clean: "\<forall>n \<in> fst ` set ps. fst st n = None"
  shows "num' = num + length batches \<and>
         (\<forall>n \<in> fst ` set ps. fst st' n = None \<and>
              snd st' n = foldl (acc add) (snd st n) (delivered fb batches n)) \<and>
         (\<forall>n. n \<notin> fst ` set ps \<longrightarrow> snd st' n = snd st n)"
  using run clean
proof (induction batches arbitrary: num st)
  case Nil
  then show ?case by (simp add: delivered_def)
next
  case (Cons b bs)
  obtain ds e where fb: "fb b = (ds, e)" by (cases "fb b")
  with Cons.prems(1) have e: "e = None" by (cases e) auto
  let ?st1 = "backward_pass add ps ds st"
  obtain gr rd where h: "record_gradient_hook add ps ?st1 = (gr, rd)"
    by (cases "record_gradient_hook add ps ?st1")
  let ?st2 = "(clear_grads ps gr, rd)"
  from Cons.prems(1) fb e h
  have rest: "estimate_batches add fb ps bs (num + 1) ?st2 = (None, num', st')"
    by simp
  have clean2: "\<forall>n \<in> fst ` set ps. fst ?st2 n = None"
    by (simp add: clear_grads_apply)
  note ih = Cons.IH [OF rest clean2]
  have inside: "rd n = foldl (acc add) (snd st n) (map snd (filter (\<lambda>(m, g). m = n) ds))"
    if n: "n \<in> fst ` set ps" for n
  proof -
    from n rg have "(n, True) \<in> set ps" by auto
    then have "fst (record_gradient_hook add ps ?st1) n = None" by (rule hook_clears)
    then have "gr n = None" using h by simp
    then have "rd n = merged add n (gr, rd)" by (simp add: merged_def)
    also have "\<dots> = merged add n ?st1" using hook_merged [of add n ps ?st1] h by simp
    also have "\<dots> = foldl (acc add) (merged add n st) (map snd (filter (\<lambda>(m, g). m = n) ds))"
      using rg n by (rule backward_pass_merged)
    also have "merged add n st = snd st n"
    proof -
      from bspec [OF Cons.prems(2) n] have "fst st n = None" .
      then show ?thesis by (simp add: merged_def)
    qed
    finally show ?thesis .
  qed
  have outside: "rd n = snd st n" if n: "n \<notin> fst ` set ps" for n
  proof -
    have "rd n = snd (record_gradient_hook add ps ?st1) n" using h by simp
    also have "\<dots> = snd ?st1 n" using n by (rule hook_outside)
    also have "\<dots> = snd st n" using n by (rule backward_pass_outside)
    finally show ?thesis .
  qed
  have del: "delivered fb (b # bs) n = map snd (filter (\<lambda>(m, g). m = n) ds) @ delivered fb bs n" for n
    using fb by (simp add: delivered_def)
  show ?case using ih inside outside del by simp
qed

lemma foldl_acc:
  "foldl (acc add) None gs = (case gs of [] \<Rightarrow> None | g # gs' \<Rightarrow> Some (foldl add g gs'))"
proof -
  have "foldl (acc add) (Some r) gs = Some (foldl add r gs)" for r gs
    by (induction gs arbitrary: r) (simp_all add: acc_def)
  then show ?thesis by (cases gs) (simp_all add: acc_def)
qed

lemma register_hooks_result:
  "register_hooks ps hooks nh reg = (e, hooks', nh', reg') \<Longrightarrow>
     (\<exists>j \<le> length ps. nh' = nh + j \<and> hooks' = hooks @ [nh ..< nh + j] \<and>
         reg' = reg @ zip [nh ..< nh + j] (map fst ps) \<and>
         (e = None \<longrightarrow> j = length ps)) \<and>
     (e = None \<longleftrightarrow> (\<forall>(m, rg) \<in> set ps. rg))"
proof (induction ps arbitrary: hooks nh reg)
  case Nil
  then show ?case by auto
next
  case (Cons p ps)
  obtain m rg where p: "p = (m, rg)" by (cases p)
  show ?case
  proof (cases rg)
    case False
    with Cons.prems p have "e = Some RuntimeError" "hooks' = hooks" "nh' = nh" "reg' = reg"
      by auto
    then have "0 \<le> length (p # ps) \<and> nh' = nh + 0 \<and> hooks' = hooks @ [nh ..< nh + 0] \<and>
        reg' = reg @ zip [nh ..< nh + 0] (map fst (p # ps)) \<and> (e = None \<longrightarrow> 0 = length (p # ps))"
      by simp
    moreover have "e = None \<longleftrightarrow> (\<forall>(m, rg) \<in> set (p # ps). rg)"
      using \<open>e = Some RuntimeError\<close> False p by auto
    ultimately show ?thesis by blast
  next
    case True
    with Cons.prems p have
      "register_hooks ps (hooks @ [nh]) (Suc nh) (reg @ [(nh, m)]) = (e, hooks', nh', reg')"
      by simp
    from Cons.IH [OF this] obtain j where j: "j \<le> length ps" "nh' = Suc nh + j"
      "hooks' = (hooks @ [nh]) @ [Suc nh ..< Suc nh + j]"
      "reg' = (reg @ [(nh, m)]) @ zip [Suc nh ..< Suc nh + j] (map fst ps)"
      "e = None \<longrightarrow> j = length ps"
      and iff: "e = None \<longleftrightarrow> (\<forall>(m, rg) \<in> set ps. rg)"
      by blast
    have lt: "nh < nh + Suc j" by simp
    have eq: "Suc nh + j = nh + Suc j" by simp
    have u: "[nh ..< nh + Suc j] = nh # [Suc nh ..< Suc nh + j]"
      unfolding eq by (rule upt_conv_Cons [OF lt])
    have "Suc j \<le> length (p # ps) \<and> nh' = nh + Suc j \<and> hooks' = hooks @ [nh ..< nh + Suc j] \<and>
        reg' = reg @ zip [nh ..< nh + Suc j] (map fst (p # ps)) \<and>
        (e = None \<longrightarrow> Suc j = length (p # ps))"
      unfolding u using j p by (simp del: upt_Suc)
    moreover have "e = None \<longleftrightarrow> (\<forall>(m, rg) \<in> set (p # ps). rg)"
      using iff True p by simp
    ultimately show ?thesis by blast
  qed
qed

lemma estimate_batches_succeeds:
  "estimate_batches add fb ps batches num st = (e, num', st') \<Longrightarrow>
     (e = None \<longleftrightarrow> (\<forall>batch \<in> set batches. snd (fb batch) = None))"
proof (induction batches arbitrary: num st)
  case Nil
  then show ?case by simp
next
  case (Cons b bs)
  obtain ds eb where fb: "fb b = (ds, eb)" by (cases "fb b")
  show ?case
  proof (cases eb)
    case (Some err)
    with Cons.prems fb show ?thesis by auto
  next
    case None
    obtain gr rd where h: "record_gradient_hook add ps (backward_pass add ps ds st) = (gr, rd)"
      by (cases "record_gradient_hook add ps (backward_pass add ps ds st)")
    from Cons.prems fb None h
    have "estimate_batches add fb ps bs (num + 1) (clear_grads ps gr, rd) = (e, num', st')"
      by simp
    from Cons.IH [OF this] fb None show ?thesis by simp
  qed
qed

text \<open>
  C4 (gradient averaging), as amended. When every parameter requires a gradient, no
  gradient is pending on a parameter at the call and no batch raises in its forward or
  backward pass, \<^verbatim>\<open>estimate_gradient\<close> returns a dictionary, and the dictionary holds, for
  every parameter to which the batches delivered a gradient, the sum of those gradients
  in the order of the batches, divided by the number of batches; a parameter that
  received no gradient, and any name that is not a parameter, is absent. The sum and the
  division are the given tensor operations, whatever they compute.
\<close>

theorem estimate_gradient_mean:
  assumes rg: "\<forall>(n, rg) \<in> set (params model). rg"
    and noraise: "\<forall>batch \<in> set dataloader. snd (forward_backward batch) = None"
    and clean: "\<forall>n \<in> fst ` set (params model). grad model n = None"
  shows "\<exists>named_grads model'.
           estimate_gradient add divn forward_backward model dataloader = (Inr named_grads, model') \<and>
           (\<forall>n. named_grads n =
              (if n \<in> fst ` set (params model) then
                 (case delivered forward_backward dataloader n of
                    [] \<Rightarrow> None
                  | g # gs \<Rightarrow> Some (divn (foldl add g gs) (length dataloader)))
               else None))"
proof -
  obtain e hooks nh reg where reg:
    "register_hooks (params model) [] (next_handle model) (hook_registry model) = (e, hooks, nh, reg)"
    by (cases "register_hooks (params model) [] (next_handle model) (hook_registry model)") auto
  from register_hooks_result [OF reg] rg have e: "e = None" by blast
  obtain e2 num gr rd where eb:
    "estimate_batches add forward_backward (params model) dataloader 0 (grad model, Map.empty)
       = (e2, num, gr, rd)"
    by (cases "estimate_batches add forward_backward (params model) dataloader 0 (grad model, Map.empty)") auto
  from estimate_batches_succeeds [OF eb] noraise have e2: "e2 = None" by blast
  let ?named_grads = "\<lambda>n. map_option (\<lambda>g. divn g num) (rd n)"
  let ?model' = "model\<lparr>grad := gr, hook_registry := remove_hooks hooks reg, next_handle := nh\<rparr>"
  have run: "estimate_gradient add divn forward_backward model dataloader = (Inr ?named_grads, ?model')"
    using reg e eb e2 by (simp add: estimate_gradient_def)
  from estimate_batches_result [OF rg eb [unfolded e2]] clean
  have num: "num = length dataloader"
    and inside: "\<forall>n \<in> fst ` set (params model).
        rd n = foldl (acc add) None (delivered forward_backward dataloader n)"
    and outside: "\<forall>n. n \<notin> fst ` set (params model) \<longrightarrow> rd n = None"
    by auto
  have "?named_grads n =
           (if n \<in> fst ` set (params model) then
              (case delivered forward_backward dataloader n of
                 [] \<Rightarrow> None
               | g # gs \<Rightarrow> Some (divn (foldl add g gs) (length dataloader)))
            else None)" for n
    using num inside outside by (auto simp: foldl_acc split: list.splits)
  with run show ?thesis by blast
qed

text \<open>
  C8 (release of the hooks), as amended. When \<^verbatim>\<open>estimate_gradient\<close> returns, it has
  registered one hook for each parameter and none of the handles issued during the call
  is still registered; the registry is the one from before the call when that one held
  only handles issued earlier. When it raises instead, every hook it registered is
  still in the registry, behind the ones that were there; and when every parameter
  requires a gradient, so that the error is the one of a batch, these are the hooks of
  all the parameters.
\<close>

theorem estimate_gradient_releases_hooks:
  assumes run: "estimate_gradient add divn forward_backward model dataloader = (res, model')"
  shows "(\<forall>named_grads. res = Inr named_grads \<longrightarrow>
            next_handle model' = next_handle model + length (params model) \<and>
            (\<forall>h. next_handle model \<le> h \<and> h < next_handle model' \<longrightarrow>
                 h \<notin> fst ` set (hook_registry model')) \<and>
            ((\<forall>(h, n) \<in> set (hook_registry model). h < next_handle model) \<longrightarrow>
                 hook_registry model' = hook_registry model)) \<and>
         (\<forall>e. res = Inl e \<longrightarrow>
            hook_registry model' =
              hook_registry model @
                zip [next_handle model ..< next_handle model'] (map fst (params model)) \<and>
            ((\<forall>(n, rg) \<in> set (params model). rg) \<longrightarrow>
                 next_handle model' = next_handle model + length (params model)))"
proof -
  let ?nh = "next_handle model" and ?k = "length (params model)"
  obtain e1 hooks nh reg where reg:
    "register_hooks (params model) [] ?nh (hook_registry model) = (e1, hooks, nh, reg)"
    by (cases "register_hooks (params model) [] ?nh (hook_registry model)") auto
  from register_hooks_result [OF reg] obtain j where j: "j \<le> ?k" "nh = ?nh + j"
    "hooks = [?nh ..< ?nh + j]"
    "reg = hook_registry model @ zip [?nh ..< ?nh + j] (map fst (params model))"
    "e1 = None \<longrightarrow> j = ?k"
    and iff: "e1 = None \<longleftrightarrow> (\<forall>(m, rg) \<in> set (params model). rg)"
    by auto
  obtain e2 num gr rd where eb:
    "estimate_batches add forward_backward (params model) dataloader 0 (grad model, Map.empty)
       = (e2, num, gr, rd)"
    by (cases "estimate_batches add forward_backward (params model) dataloader 0 (grad model, Map.empty)") auto
  have ok: "next_handle model' = ?nh + ?k \<and>
            (\<forall>h. ?nh \<le> h \<and> h < next_handle model' \<longrightarrow> h \<notin> fst ` set (hook_registry model')) \<and>
            ((\<forall>(h, n) \<in> set (hook_registry model). h < ?nh) \<longrightarrow>
                 hook_registry model' = hook_registry model)"
    if res: "res = Inr named_grads" for named_grads
  proof -
    from run reg res have e1: "e1 = None" by (cases e1) (auto simp: estimate_gradient_def)
    from run reg e1 eb res have e2: "e2 = None" by (cases e2) (auto simp: estimate_gradient_def)
    from run reg e1 eb e2
    have m': "model' = model\<lparr>grad := gr, hook_registry := remove_hooks hooks reg,
        next_handle := nh\<rparr>"
      by (auto simp: estimate_gradient_def)
    from j e1 have jk: "j = ?k" by simp
    have new: "filter (\<lambda>(h, n). h \<notin> set hooks) (zip [?nh ..< ?nh + j] (map fst (params model))) = []"
      unfolding j(3) by (auto simp: filter_empty_conv dest: set_zip_leftD)
    have final: "hook_registry model' = filter (\<lambda>(h, n). h \<notin> set hooks) (hook_registry model)"
      using m' j(4) new by (simp add: remove_hooks_def)
    have a: "next_handle model' = ?nh + ?k" using m' j(2) jk by simp
    have b: "h \<notin> fst ` set (hook_registry model')" if "?nh \<le> h" "h < next_handle model'" for h
      using that a final j(3) jk by auto
    have c: "hook_registry model' = hook_registry model"
      if "\<forall>(h, n) \<in> set (hook_registry model). h < ?nh"
    proof -
      have "filter (\<lambda>(h, n). h \<notin> set hooks) (hook_registry model) = hook_registry model"
        using that j(3) by (auto simp: filter_id_conv)
      with final show ?thesis by simp
    qed
    from a b c show ?thesis by blast
  qed
  have err: "hook_registry model' =
              hook_registry model @ zip [?nh ..< next_handle model'] (map fst (params model)) \<and>
            ((\<forall>(n, rg) \<in> set (params model). rg) \<longrightarrow> next_handle model' = ?nh + ?k)"
    if res: "res = Inl e" for e
  proof -
    have m': "hook_registry model' = reg \<and> next_handle model' = nh"
      using run reg eb res
      by (cases e1; cases e2) (auto simp: estimate_gradient_def)
    with j iff show ?thesis by auto
  qed
  from ok err show ?thesis by blast
qed

text \<open>Two batches and three parameters, one of which never receives a gradient.\<close>

theorem estimate_gradient_mean_witness:
  "estimate_gradient (+) (\<lambda>g k. g / real k)
       (\<lambda>b. (if b then [(''w'', 2), (''b'', 4)] else [(''w'', 4)], None))
       \<lparr>params = [(''b'', True), (''w'', True), (''c'', True)], grad = Map.empty,
        hook_registry = [], next_handle = 0\<rparr>
       [True, False]
     = (Inr [''b'' \<mapsto> 2, ''w'' \<mapsto> (3::real)],
        \<lparr>params = [(''b'', True), (''w'', True), (''c'', True)], grad = Map.empty,
         hook_registry = [], next_handle = 3\<rparr>) \<and>
   [''b'' \<mapsto> 2, ''w'' \<mapsto> (3::real)] ''w'' = Some ((2 + 4) / real (length [True, False])) \<and>
   [''b'' \<mapsto> 2, ''w'' \<mapsto> (3::real)] ''c'' = None"
proof -
  let ?fb = "\<lambda>b. (if b then [(''w'', 2), (''b'', 4)] else [(''w'', 4::real)], None :: error option)"
  let ?m = "\<lparr>params = [(''b'', True), (''w'', True), (''c'', True)],
             grad = (Map.empty :: string \<rightharpoonup> real), hook_registry = [], next_handle = 0\<rparr>"
  have r: "estimate_gradient (+) (\<lambda>g k. g / real k) ?fb ?m [True, False]
     = (Inr [''b'' \<mapsto> 2, ''w'' \<mapsto> (3::real)],
        \<lparr>params = [(''b'', True), (''w'', True), (''c'', True)], grad = Map.empty,
         hook_registry = [], next_handle = 3\<rparr>)"
    by (auto simp: estimate_gradient_def accumulate_def clear_grads_def remove_hooks_def fun_eq_iff)
  have h: "\<forall>(n, rg) \<in> set (params ?m). rg"
    "\<forall>batch \<in> set [True, False]. snd (?fb batch) = None"
    "\<forall>n \<in> fst ` set (params ?m). grad ?m n = None"
    by simp_all
  from estimate_gradient_mean [where add = "(+)" and divn = "\<lambda>g k. g / real k" and
      forward_backward = ?fb and model = ?m and dataloader = "[True, False]", OF h] r
  show ?thesis
    by (simp add: delivered_def)
qed

text \<open>
  The claim as stated fails when gradients are pending at the call: the first run of the
  hook moves them into the dictionary, so the entry of \<^verbatim>\<open>w\<close> is (18 + 2 + 4) / 2 and not
  the mean 3 of its two batch gradients, and \<^verbatim>\<open>c\<close>, to which no batch delivers a
  gradient, has an entry.
\<close>

theorem estimate_gradient_pending_gradients:
  "fst (estimate_gradient (+) (\<lambda>g k. g / real k)
       (\<lambda>b. (if b then [(''w'', 2)] else [(''w'', 4)], None))
       \<lparr>params = [(''w'', True), (''c'', True)], grad = [''w'' \<mapsto> 18, ''c'' \<mapsto> 5],
        hook_registry = [], next_handle = 0\<rparr>
       [True, False])
     = Inr [''c'' \<mapsto> 5 / 2, ''w'' \<mapsto> (12::real)] \<and>
   [''c'' \<mapsto> 5 / 2, ''w'' \<mapsto> (12::real)] ''w'' \<noteq> Some ((2 + 4) / 2) \<and>
   [''c'' \<mapsto> 5 / 2, ''w'' \<mapsto> (12::real)] ''c'' \<noteq> None"
  by (auto simp: estimate_gradient_def accumulate_def clear_grads_def remove_hooks_def fun_eq_iff)

text \<open>
  Three parameters and one hook of another owner in the registry: a call on two batches
  that returns, and a call whose only batch raises.
\<close>

theorem estimate_gradient_releases_hooks_witness:
  "estimate_gradient (+) (\<lambda>g k. g / real k)
       (\<lambda>b. (if b then [(''w'', 2), (''b'', 4)] else [(''w'', 4)], None))
       \<lparr>params = [(''b'', True), (''w'', True), (''c'', True)], grad = Map.empty,
        hook_registry = [(0, ''w'')], next_handle = 1\<rparr>
       [True, False]
     = (Inr [''b'' \<mapsto> 2, ''w'' \<mapsto> (3::real)],
        \<lparr>params = [(''b'', True), (''w'', True), (''c'', True)], grad = Map.empty,
         hook_registry = [(0, ''w'')], next_handle = 4\<rparr>) \<and>
   (2::nat) \<notin> fst ` set [(0::nat, ''w'')] \<and>
   hook_registry (snd (estimate_gradient (+) (\<lambda>g k. g / real k)
       (\<lambda>b. ([], Some RuntimeError))
       \<lparr>params = [(''b'', True), (''w'', True), (''c'', True)], grad = (Map.empty :: string \<rightharpoonup> real),
        hook_registry = [(0, ''w'')], next_handle = 1\<rparr>
       [()]))
     = [(0, ''w''), (1, ''b''), (2, ''w''), (3, ''c'')]"
proof -
  let ?fb = "\<lambda>b. (if b then [(''w'', 2), (''b'', 4)] else [(''w'', 4::real)], None :: error option)"
  let ?fb2 = "\<lambda>b :: unit. ([] :: (string \<times> real) list, Some RuntimeError)"
  let ?m = "\<lparr>params = [(''b'', True), (''w'', True), (''c'', True)],
             grad = (Map.empty :: string \<rightharpoonup> real), hook_registry = [(0, ''w'')],
             next_handle = 1\<rparr>"
  have r: "estimate_gradient (+) (\<lambda>g k. g / real k) ?fb ?m [True, False]
     = (Inr [''b'' \<mapsto> 2, ''w'' \<mapsto> (3::real)],
        \<lparr>params = [(''b'', True), (''w'', True), (''c'', True)], grad = Map.empty,
         hook_registry = [(0, ''w'')], next_handle = 4\<rparr>)"
    by (auto simp: estimate_gradient_def accumulate_def clear_grads_def remove_hooks_def fun_eq_iff)
  obtain model2 where r2: "estimate_gradient (+) (\<lambda>g k. g / real k) ?fb2 ?m [()]
     = (Inl RuntimeError, model2)" and nh2: "next_handle model2 = 4"
    by (simp add: estimate_gradient_def)
  from estimate_gradient_releases_hooks [OF r] estimate_gradient_releases_hooks [OF r2] r r2 nh2
  show ?thesis
    by (simp add: upt_conv_Cons)
qed

text \<open>
  The claim as stated fails: when the only batch raises, the error propagates past lines
  390-391 and the hook registered on the parameter stays.
\<close>

theorem estimate_gradient_error_keeps_hooks:
  "fst (estimate_gradient (+) (\<lambda>g k. g / real k) (\<lambda>b. ([], Some RuntimeError))
          \<lparr>params = [(''w'', True)], grad = Map.empty, hook_registry = [], next_handle = 0\<rparr>
          [()])
     = (Inl RuntimeError :: error + (string \<rightharpoonup> real)) \<and>
   hook_registry (snd (estimate_gradient (+) (\<lambda>g k. g / real k) (\<lambda>b. ([], Some RuntimeError))
          \<lparr>params = [(''w'', True)], grad = (Map.empty :: string \<rightharpoonup> real), hook_registry = [], next_handle = 0\<rparr>
          [()]))
     = [(0, ''w'')]"
  by (simp add: estimate_gradient_def)

section \<open>Properties of the initialiser\<close>






lemma reinit_simple_frame:
  "weight (snd (reinit_simple t layer cfg)) = weight layer \<and>
   scaling (snd (reinit_simple t layer cfg)) = scaling layer"
  by (simp add: reinit_simple_def Let_def split: sum.splits)

lemma reinit_svd_frame:
  "weight (snd (reinit_svd t layer cfg)) = weight layer \<and>
   scaling (snd (reinit_svd t layer cfg)) = scaling layer"
  by (simp add: reinit_svd_def Let_def split: sum.splits prod.splits)

lemma assign_factors_frame:
  "weight (snd (assign_factors layer peft BA)) = weight layer \<and>
   scaling (snd (assign_factors layer peft BA)) = scaling layer"
  by (simp add: assign_factors_def split: sum.splits prod.splits option.splits)

lemma reinit_gradient_frame:
  "weight (snd (reinit_gradient t name layer cfg peft named_grads)) = weight layer \<and>
   scaling (snd (reinit_gradient t name layer cfg peft named_grads)) = scaling layer"
proof (cases named_grads)
  case None
  then show ?thesis by (simp add: reinit_gradient_def)
next
  case (Some named_grad)
  show ?thesis
  proof (cases "named_grad (grad_name name)")
    case None
    with Some show ?thesis by (simp add: reinit_gradient_def)
  next
    case (Some grads)
    obtain U S V0 where svd: "(if direction cfg = ''LoRA-One'' then svd_lowrank t (neg grads) 512 16
                      else svd_lowrank t grads 512 16) = (U, S, V0)"
      by (metis prod_cases3)
    show ?thesis
    proof (cases "gradient_direction (direction cfg) (lora_r layer) U S (transpose V0)")
      case (Inl e)
      with \<open>named_grads = Some named_grad\<close> Some svd show ?thesis
        by (simp add: reinit_gradient_def)
    next
      case (Inr BA0)
      with \<open>named_grads = Some named_grad\<close> Some svd show ?thesis
        by (cases "gradient_scale t layer cfg grads BA0")
           (simp_all add: reinit_gradient_def assign_factors_frame)
    qed
  qed
qed

lemma cast_factors_frame:
  "weight (snd (cast_factors t layer cfg peft)) = weight layer \<and>
   scaling (snd (cast_factors t layer cfg peft)) = scaling layer"
  by (simp add: cast_factors_def Let_def split: option.splits)

lemma reinit_by_mode_frame:
  "weight (snd (reinit_by_mode t name layer cfg peft named_grads)) = weight layer \<and>
   scaling (snd (reinit_by_mode t name layer cfg peft named_grads)) = scaling layer"
  by (simp add: reinit_by_mode_def reinit_simple_frame reinit_svd_frame reinit_gradient_frame)


text \<open>
  C9 (no offset for LoRA-One). With the direction \<^verbatim>\<open>LoRA-One\<close>, lines 246-268 change
  nothing and raise nothing; the casts before them leave the weight alone; and so the
  weight after \<^verbatim>\<open>reinit_lora_modules\<close> is the weight before it, whether the call returns
  or raises.
\<close>

theorem lora_one_keeps_weight:
  assumes dir: "direction cfg = ''LoRA-One''"
  shows "subtract_offset t layer cfg = (None, layer) \<and>
         weight (snd (cast_factors t layer cfg peft)) = weight layer \<and>
         weight (snd (reinit_lora_modules t name layer cfg peft named_grads)) = weight layer"
proof -
  have a: "subtract_offset t l cfg = (None, l)" for l
    using dir by (simp add: subtract_offset_def)
  obtain e1 layer1 where i: "reinit_by_mode t name layer cfg peft named_grads = (e1, layer1)"
    by (cases "reinit_by_mode t name layer cfg peft named_grads")
  obtain e2 layer2 where c: "cast_factors t layer1 cfg peft = (e2, layer2)"
    by (cases "cast_factors t layer1 cfg peft")
  have w1: "weight layer1 = weight layer"
    using reinit_by_mode_frame [of t name layer cfg peft named_grads] i by simp
  have w2: "weight layer2 = weight layer1"
    using cast_factors_frame [of t layer1 cfg peft] c by simp
  have "weight (snd (reinit_lora_modules t name layer cfg peft named_grads)) = weight layer"
    using i c w1 w2 a by (cases e1; cases e2) (simp_all add: reinit_lora_modules_def)
  with a cast_factors_frame show ?thesis by simp
qed

subsection \<open>The examples\<close>

lemma transpose_example_V: "transpose [[5, 6], [7, 8 :: real]] = [[5, 7], [6, 8]]"
  by simp

lemma transpose_example_A: "transpose [[5, 7 :: real]] = [[5], [7]]"
  by simp

lemma lora_r_example: "lora_r example_layer = 1"
  by (simp add: lora_r_def example_layer_def shape_def)

lemma grad_name_example: "grad_name ''base_model.model.q_proj'' = ''q_proj.weight''"
  by (simp add: grad_name_def)



lemma run_gradient_example:
  "reinit_lora_modules example_torch ''base_model.model.q_proj'' example_layer
       (example_config\<lparr>mode := ''gradient''\<rparr>) example_peft
       (Some [''q_proj.weight'' \<mapsto> [[1, 0], [0, 1]]])
     = (None, example_layer\<lparr>weight := [[-10, -8], [-10, -16]], lora_A := [[5, 7]], lora_B := [[2], [4]]\<rparr>)"
  by (simp add: reinit_lora_modules_def reinit_by_mode_def reinit_gradient_def
      gradient_direction_def gradient_scale_def assign_factors_def cast_factors_def
      subtract_offset_def scaled_offset_def subtract_from_weight_def cast_def example_torch_def
      example_config_def example_peft_def lora_r_example transpose_example_V
      transpose_example_A grad_name_example matmul_def mat_sub_def same_shape_def smul_def)
     (simp add: example_layer_def)

lemma subtract_offset_factors:
  assumes "norm_clip cfg \<noteq> Some True"
  shows "lora_A (snd (subtract_offset t layer cfg)) = lora_A layer \<and>
         lora_B (snd (subtract_offset t layer cfg)) = lora_B layer"
  using assms
  by (simp add: subtract_offset_def subtract_from_weight_def split: sum.splits)



text \<open>
  Mode \<^verbatim>\<open>gradient\<close> with the direction \<^verbatim>\<open>LoRA-One\<close>.
\<close>

theorem lora_one_keeps_weight_witness:
  "direction (example_config\<lparr>mode := ''gradient'', direction := ''LoRA-One''\<rparr>) = ''LoRA-One'' \<and>
   weight (snd (reinit_lora_modules example_torch ''base_model.model.q_proj'' example_layer
       (example_config\<lparr>mode := ''gradient'', direction := ''LoRA-One''\<rparr>) example_peft
       (Some [''q_proj.weight'' \<mapsto> [[1, 0], [0, 1]]])))
     = [[10, 20], [30, 40]]"
proof -
  have d: "direction (example_config\<lparr>mode := ''gradient'', direction := ''LoRA-One''\<rparr>) = ''LoRA-One''"
    by simp
  from lora_one_keeps_weight [OF d] d show ?thesis
    by (simp add: example_layer_def)
qed

text \<open>
  C7 (the blocks of LoRA-GA), as amended. In mode \<^verbatim>\<open>gradient\<close> with the direction
  \<^verbatim>\<open>LoRA-GA\<close>, the pair (\<^verbatim>\<open>B\<close>, \<^verbatim>\<open>A\<close>) that lines 175-177 take from the truncated SVD
  of the gradient is the block of the columns rank..2*rank of \<^verbatim>\<open>U\<close>, unscaled, and the
  block of the first rank rows of the transposed \<^verbatim>\<open>V\<close>, that is, the rows 0..rank: the
  call is the scale policy, the assignment, the casts and the offset applied to this
  pair. With the scale \<^verbatim>\<open>unit\<close>, no DoRA, no cast and no clipping, these two blocks are
  the factors that the call leaves.
\<close>

theorem lora_ga_blocks:
  assumes "mode cfg = ''gradient''" and "direction cfg = ''LoRA-GA''"
    and "named_grad (grad_name name) = Some grads"
    and "svd_lowrank t grads 512 16 = (U, S, V0)"
  shows "reinit_lora_modules t name layer cfg peft (Some named_grad) =
           (case gradient_scale t layer cfg grads
                   (Some (map (\<lambda>row. take (lora_r layer) (drop (lora_r layer) row)) U,
                          take (lora_r layer) (transpose V0))) of
              Inl e \<Rightarrow> (Some e, layer)
            | Inr BA \<Rightarrow>
                (case assign_factors layer peft BA of
                   (Some e, layer1) \<Rightarrow> (Some e, layer1)
                 | (None, layer1) \<Rightarrow>
                     (case cast_factors t layer1 cfg peft of
                        (Some e, layer2) \<Rightarrow> (Some e, layer2)
                      | (None, layer2) \<Rightarrow> subtract_offset t layer2 cfg))) \<and>
         (scale cfg = ''unit'' \<and> \<not> dora peft \<and> dtype cfg = None \<and> norm_clip cfg \<noteq> Some True \<longrightarrow>
            lora_B (snd (reinit_lora_modules t name layer cfg peft (Some named_grad)))
              = map (\<lambda>row. take (lora_r layer) (drop (lora_r layer) row)) U \<and>
            lora_A (snd (reinit_lora_modules t name layer cfg peft (Some named_grad)))
              = take (lora_r layer) (transpose V0))"
proof -
  let ?B = "map (\<lambda>row. take (lora_r layer) (drop (lora_r layer) row)) U"
  let ?A = "take (lora_r layer) (transpose V0)"
  have dir: "gradient_direction (direction cfg) (lora_r layer) U S (transpose V0) = Inr (Some (?B, ?A))"
    using assms(2) by (simp add: gradient_direction_def)
  have g: "reinit_gradient t name layer cfg peft (Some named_grad) =
      (case gradient_scale t layer cfg grads (Some (?B, ?A)) of
         Inl e \<Rightarrow> (Some e, layer)
       | Inr BA \<Rightarrow> assign_factors layer peft BA)"
    using assms(2,3,4) dir by (simp add: reinit_gradient_def)
  have general: "reinit_lora_modules t name layer cfg peft (Some named_grad) =
           (case gradient_scale t layer cfg grads (Some (?B, ?A)) of
              Inl e \<Rightarrow> (Some e, layer)
            | Inr BA \<Rightarrow>
                (case assign_factors layer peft BA of
                   (Some e, layer1) \<Rightarrow> (Some e, layer1)
                 | (None, layer1) \<Rightarrow>
                     (case cast_factors t layer1 cfg peft of
                        (Some e, layer2) \<Rightarrow> (Some e, layer2)
                      | (None, layer2) \<Rightarrow> subtract_offset t layer2 cfg)))"
    using assms(1) g
    by (simp add: reinit_lora_modules_def reinit_by_mode_def split: sum.splits)
  have special: "lora_B (snd (reinit_lora_modules t name layer cfg peft (Some named_grad))) = ?B \<and>
      lora_A (snd (reinit_lora_modules t name layer cfg peft (Some named_grad))) = ?A"
    if u: "scale cfg = ''unit''" "\<not> dora peft" "dtype cfg = None" "norm_clip cfg \<noteq> Some True"
  proof -
    let ?l1 = "layer\<lparr>lora_A := ?A, lora_B := ?B, factor_dtype := ''float32''\<rparr>"
    have "gradient_scale t layer cfg grads (Some (?B, ?A)) = Inr (Some (?B, ?A))"
      using u(1) by (simp add: gradient_scale_def)
    moreover have "assign_factors layer peft (Some (?B, ?A)) = (None, ?l1)"
      using u(2) by (simp add: assign_factors_def)
    moreover have "cast_factors t ?l1 cfg peft = (None, ?l1)"
      using u(2,3) by (simp add: cast_factors_def)
    ultimately have "reinit_lora_modules t name layer cfg peft (Some named_grad)
        = subtract_offset t ?l1 cfg"
      using general by simp
    then show ?thesis
      using subtract_offset_factors [OF u(4), of t ?l1] by simp
  qed
  from general special show ?thesis by blast
qed

text \<open>
  Rank 1: \<^verbatim>\<open>B\<close> is the second column of \<^verbatim>\<open>U\<close>, \<^verbatim>\<open>A\<close> the first row of the transposed
  \<^verbatim>\<open>V\<close>.
\<close>

theorem lora_ga_blocks_witness:
  "lora_B (snd (reinit_lora_modules example_torch ''base_model.model.q_proj'' example_layer
       (example_config\<lparr>mode := ''gradient''\<rparr>) example_peft
       (Some [''q_proj.weight'' \<mapsto> [[1, 0], [0, 1]]])))
     = [[2], [4]] \<and>
   lora_A (snd (reinit_lora_modules example_torch ''base_model.model.q_proj'' example_layer
       (example_config\<lparr>mode := ''gradient''\<rparr>) example_peft
       (Some [''q_proj.weight'' \<mapsto> [[1, 0], [0, 1]]])))
     = [[5, 7]]"
proof -
  let ?cfg = "example_config\<lparr>mode := ''gradient''\<rparr>"
  have h: "mode ?cfg = ''gradient''" "direction ?cfg = ''LoRA-GA''"
    "[''q_proj.weight'' \<mapsto> [[1, 0], [0, 1 :: real]]] (grad_name ''base_model.model.q_proj'')
       = Some [[1, 0], [0, 1]]"
    "svd_lowrank example_torch [[1, 0], [0, 1]] 512 16
       = ([[1, 2], [3, 4]], [9, 4], [[5, 6], [7, 8]])"
    by (simp_all add: example_config_def example_torch_def grad_name_example)
  have u: "scale ?cfg = ''unit''" "\<not> dora example_peft" "dtype ?cfg = None"
    "norm_clip ?cfg \<noteq> Some True"
    by (simp_all add: example_config_def example_peft_def)
  from lora_ga_blocks [where cfg = ?cfg and peft = example_peft and t = example_torch
      and named_grad = "[''q_proj.weight'' \<mapsto> [[1, 0], [0, 1]]]"
      and name = "''base_model.model.q_proj''" and layer = example_layer, OF h, THEN conjunct2] u
  show ?thesis
    by (simp add: lora_r_example transpose_example_V)
qed

text \<open>
  The claim as stated fails: the factor \<^verbatim>\<open>A\<close> is not the block of the rows rank..2*rank
  of the transposed \<^verbatim>\<open>V\<close>, the block that corresponds to the columns taken for \<^verbatim>\<open>B\<close>.
\<close>

theorem lora_ga_takes_first_right_block:
  "lora_A (snd (reinit_lora_modules example_torch ''base_model.model.q_proj'' example_layer
       (example_config\<lparr>mode := ''gradient''\<rparr>) example_peft
       (Some [''q_proj.weight'' \<mapsto> [[1, 0], [0, 1]]])))
     \<noteq> take (lora_r example_layer) (drop (lora_r example_layer)
           (transpose (snd (snd (svd_lowrank example_torch [[1, 0], [0, 1]] 512 16)))))"
  by (simp add: run_gradient_example lora_r_example)
     (simp add: example_torch_def transpose_example_V)

text \<open>
  C3 (validation of the configuration), at inputs where the code does not do what the
  claim says: with the unknown mode \<^verbatim>\<open>bogus\<close> the call raises nothing, and goes on to
  subtract the offset of the factors that the layer already had from the weight; with the
  unknown scale \<^verbatim>\<open>bogus\<close> in mode \<^verbatim>\<open>svd\<close> it raises nothing either.
\<close>

theorem unknown_mode_is_accepted:
  "reinit_lora_modules example_torch ''base_model.model.q_proj'' example_layer
       (example_config\<lparr>mode := ''bogus''\<rparr>) example_peft None
     = (None, example_layer) \<and>
   reinit_lora_modules example_torch ''base_model.model.q_proj''
       (example_layer\<lparr>lora_A := [[1, 1]], lora_B := [[1], [1]]\<rparr>)
       (example_config\<lparr>mode := ''bogus''\<rparr>) example_peft None
     = (None, example_layer\<lparr>weight := [[8, 18], [28, 38]], lora_A := [[1, 1]], lora_B := [[1], [1]]\<rparr>) \<and>
   reinit_lora_modules example_torch ''base_model.model.q_proj'' example_layer
       (example_config\<lparr>scale := ''bogus''\<rparr>) example_peft None
     = (None, example_layer)"
  by (simp add: reinit_lora_modules_def reinit_by_mode_def reinit_svd_def cast_factors_def
      subtract_offset_def scaled_offset_def subtract_from_weight_def cast_def
      example_config_def example_peft_def example_torch_def matmul_def mat_sub_def
      same_shape_def smul_def example_layer_def)

text \<open>
  C6 (the scale \<^verbatim>\<open>stable\<close> in mode \<^verbatim>\<open>simple\<close>), where the code does not do what the
  claim says: with that mode and that scale the call never succeeds, for any layer and
  any other setting; in the example it raises UnboundLocalError for \<^verbatim>\<open>m\<close> after it has
  sampled the two factors, which stay as sampled.
\<close>

theorem simple_stable_raises:
  "fst (reinit_lora_modules t name layer (cfg\<lparr>mode := ''simple'', scale := ''stable''\<rparr>) peft
          named_grads) \<noteq> None \<and>
   reinit_lora_modules example_torch ''base_model.model.q_proj'' example_layer
       (example_config\<lparr>mode := ''simple'', scale := ''stable''\<rparr>) example_peft None
     = (Some (UnboundLocalError ''m''), example_layer\<lparr>lora_A := [[3, 3]], lora_B := [[0], [0]]\<rparr>)"
proof -
  have "fst (reinit_lora_modules t name layer (cfg\<lparr>mode := ''simple'', scale := ''stable''\<rparr>) peft
          named_grads) \<noteq> None"
    by (simp add: reinit_lora_modules_def reinit_by_mode_def reinit_simple_def Let_def
        split: sum.splits)
  moreover have "reinit_lora_modules example_torch ''base_model.model.q_proj'' example_layer
       (example_config\<lparr>mode := ''simple'', scale := ''stable''\<rparr>) example_peft None
     = (Some (UnboundLocalError ''m''), example_layer\<lparr>lora_A := [[3, 3]], lora_B := [[0], [0]]\<rparr>)"
    by (simp add: reinit_lora_modules_def reinit_by_mode_def reinit_simple_def init_lora_A_def
        init_lora_B_def example_config_def example_torch_def zeros_def example_layer_def)
  ultimately show ?thesis by simp
qed

end
